theory Spec2Isabelle
  imports Main
begin

section \<open>The interaction history of the study assistant\<close>

text \<open>
  The component \<open>App\<close> keeps the history of past analyses in a React state variable
  \<open>history\<close> and mirrors it, as JSON text, under the key \<open>vipaii_history\<close> of the
  browser's \<open>localStorage\<close>. This theory embeds the four pieces of \<open>App\<close> that read or
  write the history: the mount effect that loads it, \<open>saveToHistory\<close>,
  \<open>deleteHistoryItem\<close> and \<open>handleAnalysis\<close>.

  JavaScript strings are modelled as \<^typ>\<open>string\<close>, read as UTF-8 bytes; the code
  only tests them for emptiness and equality. The four Vietnamese literals of the
  source are written as their UTF-8 bytes.
\<close>

subsection \<open>Data\<close>

record ExplanationSection =
  title :: string
  content :: string

datatype Explanation = Plain string | Sectioned "ExplanationSection list"

text \<open>
  Modelled from the spec: the type \<open>AnalysisResult\<close> is declared in \<open>./types\<close>, which
  is not among the sources. Section 3 of the specification gives its fields: summary,
  keywords (here \<open>keywords'\<close>), explanation (a string or a sequence of titled sections)
  and examples. The history code never inspects a result.
\<close>

record AnalysisResult =
  summary :: string
  keywords' :: "string list"
  explanation :: Explanation
  examples :: "string list"

text \<open>
  The fields of a history item are those of the object literal in \<open>saveToHistory\<close>.
  The field \<open>id\<close> is named \<open>id'\<close> here, \<open>id\<close> being the identity function of HOL.
  An absent (\<open>undefined\<close>) file name is \<open>None\<close>.
\<close>

record HistoryItem =
  id' :: string
  timestamp :: int
  prompt :: string
  fileName :: "string option"
  result :: AnalysisResult

text \<open>The object built by \<open>handleFileChange\<close>.\<close>

record UploadedFile =
  data :: string
  mimeType :: string
  name :: string

text \<open>
  What a call completes with: the exceptions that the modelled code can meet, and the
  values its functions return (\<open>saveToHistory\<close> and \<open>deleteHistoryItem\<close> have no
  \<open>return\<close> statement, so a call that completes yields \<open>undefined\<close>).
\<close>

datatype js_error = SyntaxError | QuotaExceededError | AnalysisFailure

datatype js_value = Undefined | Boolean bool

subsection \<open>JSON values\<close>

text \<open>
  What \<open>JSON.parse\<close> can return: the syntax tree of a JSON text. A number written as an
  integer numeral is a \<open>JNumber\<close>; a number written with a fraction or an exponent is
  kept as written in a \<open>JDecimal\<close> (its value as a double is not modelled; the
  application writes no such number). Integers are exact, as JavaScript's numbers are
  up to \<open>2^53\<close>, far above every reading of \<open>Date.now()\<close>. The members of an object are
  kept in the order of the text.
\<close>

datatype json =
    JNull
  | JBool bool
  | JNumber int
  | JDecimal string
  | JString string
  | JArray "json list"
  | JObject "(string \<times> json) list"

text \<open>
  The JSON value of a history, as \<open>JSON.stringify\<close> sees it: an array of objects with
  the properties of the object literal in \<open>saveToHistory\<close>, in that order. A property
  whose value is \<open>undefined\<close> (an absent file name) is left out by \<open>JSON.stringify\<close>.
\<close>

definition stringsToJson :: "string list \<Rightarrow> json" where
  "stringsToJson ss = JArray (map JString ss)"

definition sectionToJson :: "ExplanationSection \<Rightarrow> json" where
  "sectionToJson sec = JObject [(''title'', JString (title sec)), (''content'', JString (content sec))]"

definition explanationToJson :: "Explanation \<Rightarrow> json" where
  "explanationToJson e =
     (case e of Plain s \<Rightarrow> JString s | Sectioned secs \<Rightarrow> JArray (map sectionToJson secs))"

definition resultToJson :: "AnalysisResult \<Rightarrow> json" where
  "resultToJson r =
     JObject [(''summary'', JString (summary r)),
              (''keywords'', stringsToJson (keywords' r)),
              (''explanation'', explanationToJson (explanation r)),
              (''examples'', stringsToJson (examples r))]"

definition itemToJson :: "HistoryItem \<Rightarrow> json" where
  "itemToJson x =
     JObject ([(''id'', JString (id' x)),
               (''timestamp'', JNumber (timestamp x)),
               (''prompt'', JString (prompt x))]
              @ (case fileName x of None \<Rightarrow> [] | Some n \<Rightarrow> [(''fileName'', JString n)])
              @ [(''result'', resultToJson (result x))])"

definition historyToJson :: "HistoryItem list \<Rightarrow> json" where
  "historyToJson h = JArray (map itemToJson h)"

text \<open>
  The other direction recognises the JSON values that are histories in this layout.
  The code itself performs no such check: it hands whatever \<open>JSON.parse\<close> returns to
  \<open>setHistory\<close>. The recognition only serves to tell the states in which \<open>history\<close>
  holds a typed list from those in which it holds something else.
\<close>

definition stringOfJson :: "json \<Rightarrow> string option" where
  "stringOfJson v = (case v of JString s \<Rightarrow> Some s | _ \<Rightarrow> None)"

definition stringsOfJson :: "json \<Rightarrow> string list option" where
  "stringsOfJson v = (case v of JArray vs \<Rightarrow> those (map stringOfJson vs) | _ \<Rightarrow> None)"

definition sectionOfJson :: "json \<Rightarrow> ExplanationSection option" where
  "sectionOfJson v =
     (case v of
        JObject ms \<Rightarrow>
          if map fst ms = [''title'', ''content''] then
            (case map snd ms of
               [JString t, JString c] \<Rightarrow> Some \<lparr>title = t, content = c\<rparr>
             | _ \<Rightarrow> None)
          else None
      | _ \<Rightarrow> None)"

definition explanationOfJson :: "json \<Rightarrow> Explanation option" where
  "explanationOfJson v =
     (case v of
        JString s \<Rightarrow> Some (Plain s)
      | JArray vs \<Rightarrow> map_option Sectioned (those (map sectionOfJson vs))
      | _ \<Rightarrow> None)"

definition resultOfJson :: "json \<Rightarrow> AnalysisResult option" where
  "resultOfJson v =
     (case v of
        JObject ms \<Rightarrow>
          if map fst ms = [''summary'', ''keywords'', ''explanation'', ''examples''] then
            (case map snd ms of
               [JString s, ks, e, xs] \<Rightarrow>
                 (case (stringsOfJson ks, explanationOfJson e, stringsOfJson xs) of
                    (Some ks', Some e', Some xs') \<Rightarrow>
                      Some \<lparr>summary = s, keywords' = ks', explanation = e', examples = xs'\<rparr>
                  | _ \<Rightarrow> None)
             | _ \<Rightarrow> None)
          else None
      | _ \<Rightarrow> None)"

definition itemOfJson :: "json \<Rightarrow> HistoryItem option" where
  "itemOfJson v =
     (case v of
        JObject ms \<Rightarrow>
          if map fst ms = [''id'', ''timestamp'', ''prompt'', ''result''] then
            (case map snd ms of
               [JString i, JNumber t, JString p, r] \<Rightarrow>
                 map_option
                   (\<lambda>res. \<lparr>id' = i, timestamp = t, prompt = p, fileName = None, result = res\<rparr>)
                   (resultOfJson r)
             | _ \<Rightarrow> None)
          else if map fst ms = [''id'', ''timestamp'', ''prompt'', ''fileName'', ''result''] then
            (case map snd ms of
               [JString i, JNumber t, JString p, JString n, r] \<Rightarrow>
                 map_option
                   (\<lambda>res. \<lparr>id' = i, timestamp = t, prompt = p, fileName = Some n, result = res\<rparr>)
                   (resultOfJson r)
             | _ \<Rightarrow> None)
          else None
      | _ \<Rightarrow> None)"

definition historyOfJson :: "json \<Rightarrow> HistoryItem list option" where
  "historyOfJson v = (case v of JArray vs \<Rightarrow> those (map itemOfJson vs) | _ \<Rightarrow> None)"

subsection \<open>The platform and the world\<close>

text \<open>
  The functions of the platform that the code calls are parameters of the model:
  \<^item> \<open>JSON_parse\<close>: \<open>JSON.parse\<close>, with \<open>None\<close> when it throws a \<open>SyntaxError\<close>.
  \<^item> \<open>JSON_stringify\<close>: \<open>JSON.stringify\<close> on a history.
  \<^item> \<open>setItem_accepts\<close>: whether \<open>localStorage.setItem\<close> stores the given text under
    the given key; when it does not, \<open>setItem\<close> throws \<open>QuotaExceededError\<close>.
  \<^item> \<open>analyzeContent\<close>: the analysis client of \<open>./services/geminiService\<close>, which
    resolves with a result or rejects.
  The JSON functions of a browser are defined further down (\<open>parseJson\<close>,
  \<open>printJson\<close>), and \<open>browser\<close> is the platform that has them.
\<close>

record Platform =
  JSON_parse :: "string \<Rightarrow> json option"
  JSON_stringify :: "HistoryItem list \<Rightarrow> string"
  setItem_accepts :: "string \<Rightarrow> string \<Rightarrow> bool"
  analyzeContent :: "string option \<Rightarrow> string option \<Rightarrow> string \<Rightarrow> js_error + AnalysisResult"

text \<open>
  The world outside the component: the entries of \<open>localStorage\<close>, from keys to texts,
  the requests sent to the analysis client (latest first) and the number of
  \<open>console.error\<close> calls.
\<close>

record World =
  localStorage :: "string \<rightharpoonup> string"
  requests :: "(string option \<times> string option \<times> string) list"
  console_errors :: nat

text \<open>
  The state variables of \<open>App\<close> that the modelled functions read or write
  (\<open>activeTab\<close> is touched by none of them). The variable \<open>file\<close> is named
  \<open>file'\<close>. The fields \<open>prompt\<close> and \<open>result\<close> of a history item are written
  \<open>HistoryItem.prompt\<close> and \<open>HistoryItem.result\<close> from here on.
\<close>

record AppState =
  file' :: "UploadedFile option"
  prompt :: string
  result :: "AnalysisResult option"
  loading :: bool
  error :: "string option"
  history :: "HistoryItem list"

definition initialState :: AppState where
  "initialState =
     \<lparr>file' = None, prompt = [], result = None, loading = False, error = None, history = []\<rparr>"

text \<open>
  The variable \<open>history\<close> is declared \<open>HistoryItem[]\<close>, but the mount effect stores in it
  whatever \<open>JSON.parse\<close> returned. \<open>Typed s\<close> is the component whose state variables
  hold values of their declared types, as in \<open>s\<close>. \<open>Untyped s v\<close> is the component whose
  state variables are those of \<open>s\<close>, except that \<open>history\<close> holds the value \<open>v\<close>, which
  is not a history in the layout above. \<open>setHistory s v\<close> is the call \<open>setHistory(v)\<close> of
  the mount effect on a parsed value; the other two calls of \<open>setHistory\<close> in the source
  pass a typed list and are record updates below. The operations below are modelled on
  typed states only.
\<close>

datatype Component = Typed AppState | Untyped AppState json

definition setHistory :: "AppState \<Rightarrow> json \<Rightarrow> Component" where
  "setHistory s v =
     (case historyOfJson v of Some h \<Rightarrow> Typed (s\<lparr>history := h\<rparr>) | None \<Rightarrow> Untyped s v)"

subsection \<open>Literals and primitive operations\<close>

definition documentTitle :: string where
  "documentTitle =
     ''Ph'' @ [CHR 0xC3, CHR 0xA2] @ ''n t'' @ [CHR 0xC3, CHR 0xAD] @ ''ch t''
       @ [CHR 0xC3, CHR 0xA0] @ ''i li'' @ [CHR 0xE1, CHR 0xBB, CHR 0x87] @ ''u''"

definition untitled :: string where
  "untitled =
     ''Kh'' @ [CHR 0xC3, CHR 0xB4] @ ''ng ti'' @ [CHR 0xC3, CHR 0xAA] @ ''u ''
       @ [CHR 0xC4, CHR 0x91, CHR 0xE1, CHR 0xBB, CHR 0x81]"

definition emptyRequestMessage :: string where
  "emptyRequestMessage =
     ''Vui l'' @ [CHR 0xC3, CHR 0xB2] @ ''ng nh'' @ [CHR 0xE1, CHR 0xBA, CHR 0xAD] @ ''p n''
       @ [CHR 0xE1, CHR 0xBB, CHR 0x99] @ ''i dung ho'' @ [CHR 0xE1, CHR 0xBA, CHR 0xB7]
       @ ''c t'' @ [CHR 0xE1, CHR 0xBA, CHR 0xA3] @ ''i file l'' @ [CHR 0xC3, CHR 0xAA]
       @ ''n.''"

definition analysisErrorMessage :: string where
  "analysisErrorMessage =
     ''C'' @ [CHR 0xC3, CHR 0xB3] @ '' l'' @ [CHR 0xE1, CHR 0xBB, CHR 0x97] @ ''i x''
       @ [CHR 0xE1, CHR 0xBA, CHR 0xA3] @ ''y ra khi ph'' @ [CHR 0xC3, CHR 0xA2]
       @ ''n t'' @ [CHR 0xC3, CHR 0xAD] @ ''ch. Vui l'' @ [CHR 0xC3, CHR 0xB2]
       @ ''ng th'' @ [CHR 0xE1, CHR 0xBB, CHR 0xAD] @ '' l'' @ [CHR 0xE1, CHR 0xBA, CHR 0xA1]
       @ ''i.''"

text \<open>A string is truthy when it is not empty; \<open>undefined\<close> and \<open>null\<close> are falsy.\<close>

definition truthy :: "string \<Rightarrow> bool" where
  "truthy s = (s \<noteq> [])"

definition truthyOpt :: "string option \<Rightarrow> bool" where
  "truthyOpt f = (case f of None \<Rightarrow> False | Some s \<Rightarrow> truthy s)"

text \<open>
  \<open>Number.prototype.toString\<close> on a reading of \<open>Date.now()\<close>: an integer number of
  milliseconds, of magnitude at most \<open>8.64e15\<close>, for which the result is the plain
  decimal numeral, with a minus sign before the epoch.
\<close>

definition digitChar :: "nat \<Rightarrow> char" where
  "digitChar d = ''0123456789'' ! d"

fun digits :: "nat \<Rightarrow> string" where
  "digits n = (if n < 10 then [digitChar n] else digits (n div 10) @ [digitChar (n mod 10)])"

declare digits.simps [simp del]

definition toString :: "int \<Rightarrow> string" where
  "toString t = (if t < 0 then CHR ''-'' # digits (nat (- t)) else digits (nat t))"

text \<open>
  \<open>localStorage.getItem\<close>, which gives \<open>null\<close> (here \<open>None\<close>) for an absent key, and
  \<open>localStorage.setItem\<close>.
\<close>

definition getItem :: "World \<Rightarrow> string \<Rightarrow> string option" where
  "getItem w k = localStorage w k"

definition setItem :: "Platform \<Rightarrow> string \<Rightarrow> string \<Rightarrow> World \<Rightarrow> js_error + World" where
  "setItem pf k v w =
     (if setItem_accepts pf k v then Inr (w\<lparr>localStorage := (localStorage w)(k \<mapsto> v)\<rparr>)
      else Inl QuotaExceededError)"

subsection \<open>The mount effect\<close>

text \<open>
  \<open>useEffect(() => { const saved = localStorage.getItem('vipaii_history');
  if (saved) { try { setHistory(JSON.parse(saved)) } catch (e) { console.error(...) } } }, [])\<close>.
  The first component of the result is what the call completes with: the effect
  returns \<open>undefined\<close>, and the \<open>SyntaxError\<close> of \<open>JSON.parse\<close> is caught inside it. A
  text that \<open>JSON.parse\<close> accepts is stored in \<open>history\<close> whatever its value is.
\<close>

definition loadHistory :: "Platform \<Rightarrow> AppState \<times> World \<Rightarrow> (js_error + js_value) \<times> Component \<times> World" where
  "loadHistory pf = (\<lambda>(s, w).
     (case getItem w ''vipaii_history'' of
        None \<Rightarrow> (Inr Undefined, Typed s, w)
      | Some saved \<Rightarrow>
          if truthy saved then
            (case JSON_parse pf saved of
               Some parsed \<Rightarrow> (Inr Undefined, setHistory s parsed, w)
             | None \<Rightarrow> (Inr Undefined, Typed s, w\<lparr>console_errors := Suc (console_errors w)\<rparr>))
          else (Inr Undefined, Typed s, w)))"

subsection \<open>Appending and deleting\<close>

text \<open>
  The object literal of \<open>saveToHistory\<close>. \<open>Date.now()\<close> is read twice, once for the id
  and once for the timestamp: \<open>t_id\<close> and \<open>t_ts\<close> are the two readings.
\<close>

definition newItem :: "AnalysisResult \<Rightarrow> string \<Rightarrow> string option \<Rightarrow> int \<Rightarrow> int \<Rightarrow> HistoryItem" where
  "newItem res p f t_id t_ts =
     \<lparr>id' = toString t_id,
      timestamp = t_ts,
      HistoryItem.prompt = (if truthy p then p else if truthyOpt f then documentTitle else untitled),
      fileName = f,
      HistoryItem.result = res\<rparr>"

text \<open>
  \<open>saveToHistory\<close> and \<open>deleteHistoryItem\<close> call \<open>setHistory\<close> before
  \<open>localStorage.setItem\<close>, and neither catches what \<open>setItem\<close> throws: the state update
  stands when the write fails, and the exception leaves the function.
\<close>

definition saveToHistory ::
  "Platform \<Rightarrow> AnalysisResult \<Rightarrow> string \<Rightarrow> string option \<Rightarrow> int \<times> int \<Rightarrow> AppState \<times> World
     \<Rightarrow> (js_error + js_value) \<times> AppState \<times> World" where
  "saveToHistory pf res p f clock = (\<lambda>(s, w).
     (let updated = newItem res p f (fst clock) (snd clock) # history s;
          s' = s\<lparr>history := updated\<rparr>
      in case setItem pf ''vipaii_history'' (JSON_stringify pf updated) w of
           Inl e \<Rightarrow> (Inl e, s', w)
         | Inr w' \<Rightarrow> (Inr Undefined, s', w')))"

text \<open>The call \<open>e.stopPropagation()\<close> concerns the click event only and is left out.\<close>

definition deleteHistoryItem ::
  "Platform \<Rightarrow> string \<Rightarrow> AppState \<times> World \<Rightarrow> (js_error + js_value) \<times> AppState \<times> World" where
  "deleteHistoryItem pf i = (\<lambda>(s, w).
     (let updated = filter (\<lambda>item. id' item \<noteq> i) (history s);
          s' = s\<lparr>history := updated\<rparr>
      in case setItem pf ''vipaii_history'' (JSON_stringify pf updated) w of
           Inl e \<Rightarrow> (Inl e, s', w)
         | Inr w' \<Rightarrow> (Inr Undefined, s', w')))"

subsection \<open>The analysis request\<close>

text \<open>
  \<open>handleAnalysis\<close> rejects a request with neither prompt nor file before anything
  else. Otherwise it sets \<open>loading\<close>, clears the error and awaits
  \<open>analyzeContent(file?.data || null, file?.mimeType || null, prompt)\<close> (the arguments
  are \<open>payloadArg\<close>, \<open>mediaTypeArg\<close> and the prompt; the file name passed on is
  \<open>file?.name\<close>, here \<open>fileNameArg\<close>); every call is recorded in \<open>requests\<close>.

  While the request is pending the component goes on handling events: the history tab
  and its delete buttons stay enabled (only the analyse button is disabled by
  \<open>loading\<close>). \<open>pending\<close> is what those handlers do to the state and the world in the
  meantime; it is the identity when nothing happens.

  When the promise settles, the function continues with the variables of the
  rendering in which the button was clicked: \<open>prompt\<close>, \<open>file\<close> and, inside
  \<open>saveToHistory\<close>, \<open>history\<close> are those of \<open>s\<close>, not of the state at that moment. So
  \<open>saveToHistory\<close> builds \<open>[newItem, ...history]\<close> from the history of \<open>s\<close>, which is
  modelled by running it on the current state with \<open>history\<close> set back to that of \<open>s\<close>.
  The call of \<open>saveToHistory\<close> is inside the \<open>try\<close> block, so its exception reaches the
  same \<open>catch\<close> as a rejected analysis. The \<open>finally\<close> block clears \<open>loading\<close>. The
  promise that \<open>handleAnalysis\<close> returns is never rejected, so the model returns the
  state and the world only.
\<close>

definition orNull :: "string \<Rightarrow> string option" where
  "orNull s = (if truthy s then Some s else None)"

definition payloadArg :: "AppState \<Rightarrow> string option" where
  "payloadArg s = (case file' s of None \<Rightarrow> None | Some u \<Rightarrow> orNull (data u))"

definition mediaTypeArg :: "AppState \<Rightarrow> string option" where
  "mediaTypeArg s = (case file' s of None \<Rightarrow> None | Some u \<Rightarrow> orNull (mimeType u))"

definition fileNameArg :: "AppState \<Rightarrow> string option" where
  "fileNameArg s = map_option name (file' s)"

definition handleAnalysis ::
  "Platform \<Rightarrow> int \<times> int \<Rightarrow> (AppState \<times> World \<Rightarrow> AppState \<times> World) \<Rightarrow> AppState \<times> World
     \<Rightarrow> AppState \<times> World" where
  "handleAnalysis pf clock pending = (\<lambda>(s, w).
     if \<not> truthy (prompt s) \<and> file' s = None then
       (s\<lparr>error := Some emptyRequestMessage\<rparr>, w)
     else
       (case pending (s\<lparr>loading := True, error := None\<rparr>,
                      w\<lparr>requests := (payloadArg s, mediaTypeArg s, prompt s) # requests w\<rparr>) of
          (s1, w1) \<Rightarrow>
            (case analyzeContent pf (payloadArg s) (mediaTypeArg s) (prompt s) of
               Inl err \<Rightarrow>
                 (s1\<lparr>error := Some analysisErrorMessage, loading := False\<rparr>,
                  w1\<lparr>console_errors := Suc (console_errors w1)\<rparr>)
             | Inr analysis \<Rightarrow>
                 (case saveToHistory pf analysis (prompt s) (fileNameArg s) clock
                         (s1\<lparr>result := Some analysis, history := history s\<rparr>, w1) of
                    (Inl err, s2, w2) \<Rightarrow>
                      (s2\<lparr>error := Some analysisErrorMessage, loading := False\<rparr>,
                       w2\<lparr>console_errors := Suc (console_errors w2)\<rparr>)
                  | (Inr v, s2, w2) \<Rightarrow> (s2\<lparr>loading := False\<rparr>, w2)))))"

subsection \<open>Sequences of operations\<close>

text \<open>
  A sequence of appends, each with its own arguments and clock readings, run one after
  the other; an append whose write fails still leaves its state update behind, and the
  next one starts from there.
\<close>

type_synonym append_call = "AnalysisResult \<times> string \<times> string option \<times> (int \<times> int)"

definition itemOf :: "append_call \<Rightarrow> HistoryItem" where
  "itemOf = (\<lambda>(res, p, f, clock). newItem res p f (fst clock) (snd clock))"

fun appendAll :: "Platform \<Rightarrow> append_call list \<Rightarrow> AppState \<times> World \<Rightarrow> AppState \<times> World" where
  "appendAll pf [] sw = sw"
| "appendAll pf ((res, p, f, clock) # cs) sw =
     appendAll pf cs (snd (saveToHistory pf res p f clock sw))"

text \<open>A restart: the component is mounted afresh on the world left behind.\<close>

definition restart :: "Platform \<Rightarrow> World \<Rightarrow> Component \<times> World" where
  "restart pf w = snd (loadHistory pf (initialState, w))"

subsection \<open>Reading a decimal numeral back\<close>

definition digitVal :: "char \<Rightarrow> nat" where
  "digitVal c = of_char c - 48"

definition numeralValue :: "string \<Rightarrow> nat" where
  "numeralValue cs = foldl (\<lambda>acc c. 10 * acc + digitVal c) 0 cs"

subsection \<open>JSON text: printing\<close>

text \<open>
  \<open>JSON.stringify\<close> without indentation prints the tokens of a value one after the
  other, with no white space. A string is quoted with the escapes of the standard: the
  quote, the backslash, the short escapes for backspace, form feed, line feed, carriage
  return and tab, and \<open>\u00XX\<close> in lower-case hexadecimal for the other characters below
  the space. An integer is printed as \<open>toString\<close> prints it.
\<close>

datatype token =
    TLBrace | TRBrace | TLBrack | TRBrack | TColon | TComma
  | TString string | TNumber int | TDecimal string | TTrue | TFalse | TNull

definition hexDigit :: "nat \<Rightarrow> char" where
  "hexDigit d = ''0123456789abcdef'' ! d"

definition quoteChar :: "char \<Rightarrow> string" where
  "quoteChar c =
     (if c = CHR 0x22 then [CHR 0x5C, CHR 0x22]
      else if c = CHR 0x5C then [CHR 0x5C, CHR 0x5C]
      else if c = CHR 0x08 then [CHR 0x5C, CHR ''b'']
      else if c = CHR 0x0C then [CHR 0x5C, CHR ''f'']
      else if c = CHR 0x0A then [CHR 0x5C, CHR ''n'']
      else if c = CHR 0x0D then [CHR 0x5C, CHR ''r'']
      else if c = CHR 0x09 then [CHR 0x5C, CHR ''t'']
      else if (of_char c :: nat) < 32 then
        [CHR 0x5C, CHR ''u'', CHR ''0'', CHR ''0'',
         hexDigit (of_char c div 16), hexDigit (of_char c mod 16)]
      else [c])"

definition quote :: "string \<Rightarrow> string" where
  "quote s = CHR 0x22 # concat (map quoteChar s) @ [CHR 0x22]"

fun printToken :: "token \<Rightarrow> string" where
  "printToken TLBrace = ''{''"
| "printToken TRBrace = ''}''"
| "printToken TLBrack = ''[''"
| "printToken TRBrack = '']''"
| "printToken TColon = '':''"
| "printToken TComma = '',''"
| "printToken (TString s) = quote s"
| "printToken (TNumber n) = toString n"
| "printToken (TDecimal l) = l"
| "printToken TTrue = ''true''"
| "printToken TFalse = ''false''"
| "printToken TNull = ''null''"

fun separated :: "token list list \<Rightarrow> token list" where
  "separated [] = []"
| "separated [x] = x"
| "separated (x # y # zs) = x @ TComma # separated (y # zs)"

text \<open>The tokens of a value, in the order \<open>JSON.stringify\<close> prints them.\<close>

primrec tokens :: "json \<Rightarrow> token list" where
  "tokens JNull = [TNull]"
| "tokens (JBool b) = [if b then TTrue else TFalse]"
| "tokens (JNumber n) = [TNumber n]"
| "tokens (JDecimal l) = [TDecimal l]"
| "tokens (JString s) = [TString s]"
| "tokens (JArray vs) = TLBrack # separated (map tokens vs) @ [TRBrack]"
| "tokens (JObject ms) =
     TLBrace # separated (map (\<lambda>(k, ts). TString k # TColon # ts) (map (map_prod id tokens) ms))
       @ [TRBrace]"

definition printJson :: "json \<Rightarrow> string" where
  "printJson v = concat (map printToken (tokens v))"

definition printTokens :: "token list \<Rightarrow> string" where
  "printTokens tks = concat (map printToken tks)"

subsection \<open>JSON text: reading\<close>

text \<open>
  \<open>JSON.parse\<close> in two passes. The first splits the text into tokens, skipping white
  space between them; the second builds the value from the tokens with a stack of the
  arrays and objects that are still open. Each pass fails where the grammar of JSON is
  not met, which is where \<open>JSON.parse\<close> throws \<open>SyntaxError\<close>.

  In a string, \<open>\uXXXX\<close> gives the UTF-8 bytes of the character; a high surrogate followed
  by an escaped low surrogate gives the four bytes of the character they encode, and a
  surrogate on its own is encoded like any other code unit.
\<close>

definition isWs :: "char \<Rightarrow> bool" where
  "isWs c = (c = CHR 0x20 \<or> c = CHR 0x09 \<or> c = CHR 0x0A \<or> c = CHR 0x0D)"

definition isDigit :: "char \<Rightarrow> bool" where
  "isDigit c = (48 \<le> (of_char c :: nat) \<and> (of_char c :: nat) \<le> 57)"

definition hexVal :: "char \<Rightarrow> nat option" where
  "hexVal c =
     (let n = (of_char c :: nat)
      in if 48 \<le> n \<and> n \<le> 57 then Some (n - 48)
         else if 97 \<le> n \<and> n \<le> 102 then Some (n - 87)
         else if 65 \<le> n \<and> n \<le> 70 then Some (n - 55)
         else None)"

definition hex4 :: "char \<Rightarrow> char \<Rightarrow> char \<Rightarrow> char \<Rightarrow> nat option" where
  "hex4 a b c d =
     (case (hexVal a, hexVal b, hexVal c, hexVal d) of
        (Some w, Some x, Some y, Some z) \<Rightarrow> Some (((w * 16 + x) * 16 + y) * 16 + z)
      | _ \<Rightarrow> None)"

definition utf8 :: "nat \<Rightarrow> string" where
  "utf8 n =
     (if n < 0x80 then [char_of n]
      else if n < 0x800 then [char_of (0xC0 + n div 64), char_of (0x80 + n mod 64)]
      else if n < 0x10000 then
        [char_of (0xE0 + n div 4096), char_of (0x80 + n div 64 mod 64), char_of (0x80 + n mod 64)]
      else
        [char_of (0xF0 + n div 262144), char_of (0x80 + n div 4096 mod 64),
         char_of (0x80 + n div 64 mod 64), char_of (0x80 + n mod 64)])"

definition simpleEscape :: "char \<Rightarrow> char option" where
  "simpleEscape e =
     (if e = CHR 0x22 then Some (CHR 0x22)
      else if e = CHR 0x5C then Some (CHR 0x5C)
      else if e = CHR ''/'' then Some (CHR ''/'')
      else if e = CHR ''b'' then Some (CHR 0x08)
      else if e = CHR ''f'' then Some (CHR 0x0C)
      else if e = CHR ''n'' then Some (CHR 0x0A)
      else if e = CHR ''r'' then Some (CHR 0x0D)
      else if e = CHR ''t'' then Some (CHR 0x09)
      else None)"

definition prepend :: "string \<Rightarrow> (string \<times> string) option \<Rightarrow> (string \<times> string) option" where
  "prepend bs res = map_option (\<lambda>(s, rest). (bs @ s, rest)) res"

definition lowSurrogate :: "string \<Rightarrow> nat option" where
  "lowSurrogate t =
     (case t of
        b # u # a # b' # c # d # r \<Rightarrow>
          if b = CHR 0x5C \<and> u = CHR ''u'' then
            (case hex4 a b' c d of
               Some lo \<Rightarrow> if 0xDC00 \<le> lo \<and> lo < 0xE000 then Some lo else None
             | None \<Rightarrow> None)
          else None
      | _ \<Rightarrow> None)"

text \<open>
  One step of a scanner: it fails, it is at the end of what it scans, or it delivers
  something and the rest of the text.
\<close>

datatype 'a scan = Bad | Stop string | Emit 'a string

definition unicodeStep :: "string \<Rightarrow> string scan" where
  "unicodeStep r =
     (case r of
        h1 # h2 # h3 # h4 # r' \<Rightarrow>
          (case hex4 h1 h2 h3 h4 of
             None \<Rightarrow> Bad
           | Some hi \<Rightarrow>
               if 0xD800 \<le> hi \<and> hi < 0xDC00 then
                 (case lowSurrogate r' of
                    Some lo \<Rightarrow>
                      Emit (utf8 (0x10000 + (hi - 0xD800) * 1024 + (lo - 0xDC00))) (drop 6 r')
                  | None \<Rightarrow> Emit (utf8 hi) r')
               else Emit (utf8 hi) r')
      | _ \<Rightarrow> Bad)"

definition escapeStep :: "string \<Rightarrow> string scan" where
  "escapeStep cs =
     (case cs of
        [] \<Rightarrow> Bad
      | e # r \<Rightarrow>
          if e = CHR ''u'' then unicodeStep r
          else (case simpleEscape e of None \<Rightarrow> Bad | Some x \<Rightarrow> Emit [x] r))"

definition stringStep :: "string \<Rightarrow> string scan" where
  "stringStep t =
     (case t of
        [] \<Rightarrow> Bad
      | c # cs \<Rightarrow>
          if c = CHR 0x22 then Stop cs
          else if c = CHR 0x5C then escapeStep cs
          else if (of_char c :: nat) < 32 then Bad
          else Emit [c] cs)"

function scanString :: "string \<Rightarrow> (string \<times> string) option" where
  "scanString t =
     (case stringStep t of
        Bad \<Rightarrow> None
      | Stop r \<Rightarrow> Some ([], r)
      | Emit bs r \<Rightarrow> prepend bs (scanString r))"
  by pat_completeness auto
termination
proof -
  have "length r < length t" if "stringStep t = Emit bs r" for t bs r
    using that
    by (auto simp: stringStep_def escapeStep_def unicodeStep_def
          split: list.splits if_splits option.splits)
  then show ?thesis
    by (relation "measure length") auto
qed

declare scanString.simps [simp del]

text \<open>
  A number: an optional minus sign, the integer part (a single zero, or digits that do
  not start with zero), an optional fraction and an optional exponent.
\<close>

definition scanFraction :: "string \<Rightarrow> string option" where
  "scanFraction t =
     (case t of
        [] \<Rightarrow> Some t
      | c # r \<Rightarrow>
          if c = CHR ''.'' then
            (if takeWhile isDigit r = [] then None else Some (dropWhile isDigit r))
          else Some t)"

definition scanExponent :: "string \<Rightarrow> string option" where
  "scanExponent t =
     (case t of
        [] \<Rightarrow> Some t
      | c # r \<Rightarrow>
          if c = CHR ''e'' \<or> c = CHR ''E'' then
            (let r' = (case r of
                         [] \<Rightarrow> r
                       | s # r2 \<Rightarrow> if s = CHR ''+'' \<or> s = CHR ''-'' then r2 else r)
             in if takeWhile isDigit r' = [] then None else Some (dropWhile isDigit r'))
          else Some t)"

definition scanUnsigned :: "string \<Rightarrow> (nat option \<times> string) option" where
  "scanUnsigned t =
     (case t of
        [] \<Rightarrow> None
      | d # r \<Rightarrow>
          if \<not> isDigit d then None
          else
            (let ip = (if d = CHR ''0'' then [d] else d # takeWhile isDigit r);
                 t2 = (if d = CHR ''0'' then r else dropWhile isDigit r)
             in case scanFraction t2 of
                  None \<Rightarrow> None
                | Some t3 \<Rightarrow>
                    (case scanExponent t3 of
                       None \<Rightarrow> None
                     | Some t4 \<Rightarrow>
                         Some (if t4 = t2 then Some (numeralValue ip) else None, t4))))"

definition scanNumber :: "string \<Rightarrow> (token \<times> string) option" where
  "scanNumber t =
     (let neg = (case t of [] \<Rightarrow> False | c # r \<Rightarrow> c = CHR ''-'');
          t1 = (if neg then drop 1 t else t)
      in case scanUnsigned t1 of
           None \<Rightarrow> None
         | Some (Some n, r) \<Rightarrow> Some (TNumber (if neg then - int n else int n), r)
         | Some (None, r) \<Rightarrow> Some (TDecimal (take (length t - length r) t), r))"

definition startsWith :: "string \<Rightarrow> string \<Rightarrow> bool" where
  "startsWith p t = (take (length p) t = p)"

definition lexStep :: "string \<Rightarrow> token scan" where
  "lexStep t =
     (case t of
        [] \<Rightarrow> Stop []
      | c # cs \<Rightarrow>
          if c = CHR ''{'' then Emit TLBrace cs
          else if c = CHR ''}'' then Emit TRBrace cs
          else if c = CHR ''['' then Emit TLBrack cs
          else if c = CHR '']'' then Emit TRBrack cs
          else if c = CHR '':'' then Emit TColon cs
          else if c = CHR '','' then Emit TComma cs
          else if c = CHR 0x22 then
            (case scanString cs of None \<Rightarrow> Bad | Some (s, r) \<Rightarrow> Emit (TString s) r)
          else if c = CHR ''-'' \<or> isDigit c then
            (case scanNumber t of None \<Rightarrow> Bad | Some (tk, r) \<Rightarrow> Emit tk r)
          else if startsWith ''true'' t then Emit TTrue (drop 4 t)
          else if startsWith ''false'' t then Emit TFalse (drop 5 t)
          else if startsWith ''null'' t then Emit TNull (drop 4 t)
          else Bad)"

function tokenize :: "string \<Rightarrow> token list option" where
  "tokenize t =
     (case lexStep (dropWhile isWs t) of
        Bad \<Rightarrow> None
      | Stop r \<Rightarrow> Some []
      | Emit tk r \<Rightarrow> map_option (Cons tk) (tokenize r))"
  by pat_completeness auto
termination
proof -
  have string_rest: "length r \<le> length t" if "scanString t = Some (s, r)" for t s r
    using that
  proof (induction t arbitrary: s rule: scanString.induct)
    case (1 t)
    show ?case
    proof (cases "stringStep t")
      case Bad
      with "1.prems" show ?thesis by (simp add: scanString.simps [of t])
    next
      case (Stop r')
      with "1.prems" have "r = r'" by (simp add: scanString.simps [of t])
      with Stop show ?thesis
        by (auto simp: stringStep_def escapeStep_def unicodeStep_def
              split: list.splits if_splits option.splits)
    next
      case (Emit bs r')
      with "1.prems" obtain s' where "scanString r' = Some (s', r)"
        by (auto simp: scanString.simps [of t] prepend_def)
      with "1.IH" Emit have "length r \<le> length r'" by blast
      moreover from Emit have "length r' < length t"
        by (auto simp: stringStep_def escapeStep_def unicodeStep_def
              split: list.splits if_splits option.splits)
      ultimately show ?thesis by simp
    qed
  qed
  have fraction_rest: "length r \<le> length t" if "scanFraction t = Some r" for t r
    using that length_dropWhile_le [of isDigit "tl t"]
    by (auto simp: scanFraction_def split: list.splits if_splits)
  have exponent_rest: "length r \<le> length t" if "scanExponent t = Some r" for t r
    using that length_dropWhile_le [of isDigit "tl t"] length_dropWhile_le [of isDigit "tl (tl t)"]
    by (auto simp: scanExponent_def Let_def split: list.splits if_splits)
  have unsigned_rest: "length r < length t" if "scanUnsigned t = Some (n, r)" for t n r
  proof -
    from that obtain d t1 t2 t3 where t: "t = d # t1" and "length t2 \<le> length t1"
      and "scanFraction t2 = Some t3" and "scanExponent t3 = Some r"
      using length_dropWhile_le [of isDigit "tl t"]
      by (auto simp: scanUnsigned_def Let_def split: list.splits if_splits option.splits)
    with fraction_rest [of t2 t3] exponent_rest [of t3 r] show ?thesis
      by simp
  qed
  have number_rest: "length r < length t" if "scanNumber t = Some (tk, r)" for t tk r
  proof -
    from that obtain n t1 where "scanUnsigned t1 = Some (n, r)" and "length t1 \<le> length t"
      by (auto simp: scanNumber_def Let_def split: option.splits if_splits)
    with unsigned_rest [of t1 n r] show ?thesis by simp
  qed
  have step_rest: "length r < length t" if "lexStep t = Emit tk r" for t tk r
  proof (cases t)
    case Nil
    with that show ?thesis by (simp add: lexStep_def)
  next
    case (Cons c cs)
    with that consider "r = cs" | s where "scanString cs = Some (s, r)"
      | "scanNumber t = Some (tk, r)" | "r = drop 4 t" | "r = drop 5 t"
      unfolding lexStep_def by (auto split: if_splits option.splits prod.splits)
    then show ?thesis
    proof cases
      case 1
      with Cons show ?thesis by simp
    next
      case 2
      with string_rest [of cs s r] Cons show ?thesis by simp
    next
      case 3
      then show ?thesis by (rule number_rest)
    next
      case 4
      with Cons show ?thesis by simp
    next
      case 5
      with Cons show ?thesis by simp
    qed
  qed
  have "length r < length t" if "lexStep (dropWhile isWs t) = Emit tk r" for t tk r
    using step_rest [OF that] length_dropWhile_le [of isWs t] by simp
  then show ?thesis
    by (relation "measure length") auto
qed

declare tokenize.simps [simp del]

text \<open>
  The second pass. A frame is an open array with the elements read so far (latest
  first), or an open object with its members read so far and the key that is being
  read. The phase says which tokens may come next.
\<close>

datatype frame = ArrayFrame "json list" | ObjectFrame "(string \<times> json) list" string

datatype phase =
    WantValue | WantValueOrClose | WantKeyOrClose | WantKey | WantColon | AfterValue | Done json

fun deliver :: "json \<Rightarrow> frame list \<Rightarrow> phase \<times> frame list" where
  "deliver v [] = (Done v, [])"
| "deliver v (ArrayFrame es # st) = (AfterValue, ArrayFrame (v # es) # st)"
| "deliver v (ObjectFrame ms k # st) = (AfterValue, ObjectFrame ((k, v) # ms) k # st)"

fun scalar :: "token \<Rightarrow> json option" where
  "scalar (TString s) = Some (JString s)"
| "scalar (TNumber n) = Some (JNumber n)"
| "scalar (TDecimal l) = Some (JDecimal l)"
| "scalar TTrue = Some (JBool True)"
| "scalar TFalse = Some (JBool False)"
| "scalar TNull = Some JNull"
| "scalar tk = None"

definition startValue :: "frame list \<Rightarrow> token \<Rightarrow> (phase \<times> frame list) option" where
  "startValue st tk =
     (if tk = TLBrack then Some (WantValueOrClose, ArrayFrame [] # st)
      else if tk = TLBrace then Some (WantKeyOrClose, ObjectFrame [] [] # st)
      else map_option (\<lambda>v. deliver v st) (scalar tk))"

definition closeArray :: "frame list \<Rightarrow> (phase \<times> frame list) option" where
  "closeArray st =
     (case st of ArrayFrame es # st' \<Rightarrow> Some (deliver (JArray (rev es)) st') | _ \<Rightarrow> None)"

definition closeObject :: "frame list \<Rightarrow> (phase \<times> frame list) option" where
  "closeObject st =
     (case st of ObjectFrame ms k # st' \<Rightarrow> Some (deliver (JObject (rev ms)) st') | _ \<Rightarrow> None)"

definition setKey :: "frame list \<Rightarrow> token \<Rightarrow> (phase \<times> frame list) option" where
  "setKey st tk =
     (case tk of
        TString k \<Rightarrow>
          (case st of ObjectFrame ms k' # st' \<Rightarrow> Some (WantColon, ObjectFrame ms k # st') | _ \<Rightarrow> None)
      | _ \<Rightarrow> None)"

definition parserStep :: "phase \<times> frame list \<Rightarrow> token \<Rightarrow> (phase \<times> frame list) option" where
  "parserStep = (\<lambda>(ph, st) tk.
     (case ph of
        WantValue \<Rightarrow> startValue st tk
      | WantValueOrClose \<Rightarrow> if tk = TRBrack then closeArray st else startValue st tk
      | WantKeyOrClose \<Rightarrow> if tk = TRBrace then closeObject st else setKey st tk
      | WantKey \<Rightarrow> setKey st tk
      | WantColon \<Rightarrow> if tk = TColon then Some (WantValue, st) else None
      | AfterValue \<Rightarrow>
          (case st of
             [] \<Rightarrow> None
           | ArrayFrame es # st' \<Rightarrow>
               if tk = TComma then Some (WantValue, st)
               else if tk = TRBrack then closeArray st
               else None
           | ObjectFrame ms k # st' \<Rightarrow>
               if tk = TComma then Some (WantKey, st)
               else if tk = TRBrace then closeObject st
               else None)
      | Done v \<Rightarrow> None))"

fun parserRun :: "phase \<times> frame list \<Rightarrow> token list \<Rightarrow> (phase \<times> frame list) option" where
  "parserRun s [] = Some s"
| "parserRun s (tk # tks) = (case parserStep s tk of None \<Rightarrow> None | Some s' \<Rightarrow> parserRun s' tks)"

definition parseTokens :: "token list \<Rightarrow> json option" where
  "parseTokens tks =
     (case parserRun (WantValue, []) tks of
        Some (Done v, st) \<Rightarrow> Some v
      | _ \<Rightarrow> None)"

definition parseJson :: "string \<Rightarrow> json option" where
  "parseJson t = (case tokenize t of None \<Rightarrow> None | Some tks \<Rightarrow> parseTokens tks)"

subsection \<open>Notions used in the proofs about JSON text\<close>

text \<open>What may follow a printed number: nothing, or a character that ends the numeral.\<close>

definition ends_numeral :: "string \<Rightarrow> bool" where
  "ends_numeral rest =
     (case rest of
        [] \<Rightarrow> True
      | c # r \<Rightarrow> \<not> isDigit c \<and> c \<noteq> CHR ''.'' \<and> c \<noteq> CHR ''e'' \<and> c \<noteq> CHR ''E'')"

text \<open>
  A token list is \<open>lexable\<close> when it holds no \<open>TDecimal\<close> and every number in it is
  followed by a comma or a closing bracket, or by nothing; the printed tokens of a
  value without \<open>JDecimal\<close> are. \<open>fits x v\<close> says that the second pass, where it expects
  a value, reads the tokens \<open>x\<close> as the value \<open>v\<close>.
\<close>

definition delimiter :: "token \<Rightarrow> bool" where
  "delimiter tk = (tk = TComma \<or> tk = TRBrack \<or> tk = TRBrace)"

definition boundary :: "token list \<Rightarrow> bool" where
  "boundary tks = (case tks of [] \<Rightarrow> True | tk # r \<Rightarrow> delimiter tk)"

fun lexable :: "token list \<Rightarrow> bool" where
  "lexable [] = True"
| "lexable (tk # tks) =
     ((case tk of TDecimal l \<Rightarrow> False | TNumber n \<Rightarrow> boundary tks | _ \<Rightarrow> True) \<and> lexable tks)"

primrec noDecimal :: "json \<Rightarrow> bool" where
  "noDecimal JNull = True"
| "noDecimal (JBool b) = True"
| "noDecimal (JNumber n) = True"
| "noDecimal (JDecimal l) = False"
| "noDecimal (JString s) = True"
| "noDecimal (JArray vs) = list_all id (map noDecimal vs)"
| "noDecimal (JObject ms) = list_all id (map snd (map (map_prod id noDecimal) ms))"

definition fits :: "token list \<Rightarrow> json \<Rightarrow> bool" where
  "fits x v = (\<forall>st. parserRun (WantValue, st) x = Some (deliver v st)
                 \<and> parserRun (WantValueOrClose, st) x = Some (deliver v st))"

definition memberTokens :: "string \<times> json \<Rightarrow> token list" where
  "memberTokens = (\<lambda>(k, v). TString k # TColon # tokens v)"

subsection \<open>The browser\<close>

text \<open>
  The platform whose JSON functions are those defined above; what the storage accepts
  and what the analysis client answers remain parameters.
\<close>

definition browser ::
  "(string \<Rightarrow> string \<Rightarrow> bool) \<Rightarrow> (string option \<Rightarrow> string option \<Rightarrow> string \<Rightarrow> js_error + AnalysisResult)
     \<Rightarrow> Platform" where
  "browser accepts client =
     \<lparr>JSON_parse = parseJson,
      JSON_stringify = (\<lambda>h. printJson (historyToJson h)),
      setItem_accepts = accepts,
      analyzeContent = client\<rparr>"

subsection \<open>Concrete inputs\<close>

text \<open>
  The inputs at which the theorems below are instantiated. \<open>examplePlatform\<close> is a
  browser whose storage accepts every write and whose analysis client succeeds;
  \<open>exampleText\<close> is the JSON text of the history made of \<open>exampleItem\<close>.
\<close>

definition exampleResult :: AnalysisResult where
  "exampleResult =
     \<lparr>summary = ''s'', keywords' = [''biology''], explanation = Plain ''e'', examples = [''x'']\<rparr>"

definition exampleItem :: HistoryItem where
  "exampleItem =
     \<lparr>id' = ''1700000000000'', timestamp = 1700000000000,
      HistoryItem.prompt = ''Explain photosynthesis'', fileName = None,
      HistoryItem.result = exampleResult\<rparr>"

definition exampleText :: string where
  \<open>exampleText =
     ''[{"id":"1700000000000","timestamp":1700000000000,"prompt":"Explain photosynthesis",''
     @ ''"result":{"summary":"s","keywords":["biology"],"explanation":"e","examples":["x"]}}]''\<close>

text \<open>
  An older item with a file name, a result in titled sections, and strings that need
  escaping (a quote, a backslash, a line feed, a control character, bytes above 127).
\<close>

definition olderItem :: HistoryItem where
  "olderItem =
     \<lparr>id' = ''1600000000000'', timestamp = 1600000000000,
      HistoryItem.prompt = ''say '' @ [CHR 0x22] @ ''hi'' @ [CHR 0x22, CHR 0x5C, CHR 0x0A, CHR 0x01],
      fileName = Some (''b'' @ [CHR 0xC3, CHR 0xA0] @ ''i.pdf''),
      HistoryItem.result =
        \<lparr>summary = '''', keywords' = [],
         explanation = Sectioned [\<lparr>title = ''1'', content = ''a''\<rparr>, \<lparr>title = ''2'', content = ''b''\<rparr>],
         examples = [''x'', ''y'']\<rparr>\<rparr>"

text \<open>The JSON text of the history made of \<open>olderItem\<close>.\<close>

definition olderText :: string where
  \<open>olderText =
     ''[{"id":"1600000000000","timestamp":1600000000000,"prompt":"say ''
     @ [CHR 0x5C] @ ''"hi'' @ [CHR 0x5C] @ ''"'' @ [CHR 0x5C, CHR 0x5C] @ [CHR 0x5C] @ ''n''
     @ [CHR 0x5C] @ ''u0001","fileName":"b'' @ [CHR 0xC3, CHR 0xA0] @ ''i.pdf",''
     @ ''"result":{"summary":"","keywords":[],"explanation":[{"title":"1","content":"a"},''
     @ ''{"title":"2","content":"b"}],"examples":["x","y"]}}]''\<close>

definition examplePlatform :: Platform where
  "examplePlatform = browser (\<lambda>k v. True) (\<lambda>d m p. Inr exampleResult)"

text \<open>The same browser with a storage that refuses every write.\<close>

definition fullStoragePlatform :: Platform where
  "fullStoragePlatform = examplePlatform\<lparr>setItem_accepts := (\<lambda>k v. False)\<rparr>"

definition emptyWorld :: World where
  "emptyWorld = \<lparr>localStorage = Map.empty, requests = [], console_errors = 0\<rparr>"

definition exampleState :: AppState where
  "exampleState = initialState\<lparr>prompt := ''Explain photosynthesis''\<rparr>"

section \<open>Properties\<close>

subsection \<open>Auxiliary facts\<close>

lemma saveToHistory_history:
  "history (fst (snd (saveToHistory pf res p f clock (s, w)))) =
     newItem res p f (fst clock) (snd clock) # history s"
  by (simp add: saveToHistory_def Let_def split: sum.split)

lemma deleteHistoryItem_history:
  "history (fst (snd (deleteHistoryItem pf i (s, w)))) =
     filter (\<lambda>item. id' item \<noteq> i) (history s)"
  by (simp add: deleteHistoryItem_def Let_def split: sum.split)

lemma appendAll_history:
  "history (fst (appendAll pf cs sw)) = rev (map itemOf cs) @ history (fst sw)"
proof (induction cs arbitrary: sw)
  case Nil
  show ?case by simp
next
  case (Cons c cs)
  obtain res p f clock where c: "c = (res, p, f, clock)"
    by (cases c) auto
  obtain s w where sw: "sw = (s, w)"
    by (cases sw) auto
  show ?case
    by (simp add: c sw Cons.IH saveToHistory_history itemOf_def)
qed

lemma of_char_digitChar: "d < 10 \<Longrightarrow> (of_char (digitChar d) :: nat) = 48 + d"
proof -
  assume "d < 10"
  then have "d = 0 \<or> d = 1 \<or> d = 2 \<or> d = 3 \<or> d = 4 \<or> d = 5 \<or> d = 6 \<or> d = 7 \<or> d = 8 \<or> d = 9"
    by arith
  then show ?thesis
    by (elim disjE) (simp_all add: digitChar_def)
qed

lemma digitVal_digitChar: "d < 10 \<Longrightarrow> digitVal (digitChar d) = d"
  by (simp add: digitVal_def of_char_digitChar)

lemma digitChar_not_minus: "d < 10 \<Longrightarrow> digitChar d \<noteq> CHR ''-''"
proof
  assume "d < 10" and "digitChar d = CHR ''-''"
  then have "(of_char (CHR ''-'') :: nat) = 48 + d"
    using of_char_digitChar [of d] by simp
  then show False by simp
qed

lemma numeralValue_digits: "numeralValue (digits n) = n"
proof (induction n rule: digits.induct)
  case (1 n)
  show ?case
  proof (cases "n < 10")
    case True
    then show ?thesis
      by (simp add: digits.simps [of n] numeralValue_def digitVal_digitChar)
  next
    case False
    with 1 have "numeralValue (digits (n div 10)) = n div 10" by simp
    with False show ?thesis
      by (simp add: digits.simps [of n] numeralValue_def digitVal_digitChar)
  qed
qed

lemma digits_inj: "digits m = digits n \<Longrightarrow> m = n"
  by (metis numeralValue_digits)

lemma digits_not_Nil: "digits n \<noteq> []"
  by (subst digits.simps) simp

lemma hd_digits: "hd (digits n) \<noteq> CHR ''-''"
proof (induction n rule: digits.induct)
  case (1 n)
  show ?case
  proof (cases "n < 10")
    case True
    then show ?thesis by (simp add: digits.simps [of n] digitChar_not_minus)
  next
    case False
    with 1 have "hd (digits (n div 10)) \<noteq> CHR ''-''" by simp
    with False show ?thesis
      by (simp add: digits.simps [of n] digits_not_Nil)
  qed
qed

text \<open>Different clock readings have different numerals.\<close>

lemma toString_inj: "toString a = toString b \<Longrightarrow> a = b"
proof -
  assume eq: "toString a = toString b"
  have neg: "hd (toString t) = CHR ''-'' \<longleftrightarrow> t < 0" for t
    by (simp add: toString_def hd_digits)
  from eq have same: "a < 0 \<longleftrightarrow> b < 0"
    using neg [of a] neg [of b] by simp
  show "a = b"
  proof (cases "a < 0")
    case True
    with same eq have "digits (nat (- a)) = digits (nat (- b))"
      by (simp add: toString_def)
    then have "nat (- a) = nat (- b)" by (rule digits_inj)
    with True same show ?thesis by simp
  next
    case False
    with same eq have "digits (nat a) = digits (nat b)"
      by (simp add: toString_def)
    then have "nat a = nat b" by (rule digits_inj)
    with False same show ?thesis by simp
  qed
qed

lemma toString_example: "toString 1700000000000 = ''1700000000000''"
  by (simp add: toString_def digits.simps digitChar_def)

lemma toString_example_next: "toString 1700000000001 = ''1700000000001''"
  by (simp add: toString_def digits.simps digitChar_def)

lemma newItem_example:
  "newItem exampleResult ''Explain photosynthesis'' None 1700000000000 1700000000000 = exampleItem"
  by (simp add: newItem_def exampleItem_def toString_example truthy_def)

subsection \<open>Printing and reading JSON text\<close>

text \<open>A quoted string is read back as the string.\<close>

lemma below_16_cases:
  "d < 16 \<Longrightarrow> d = 0 \<or> d = 1 \<or> d = 2 \<or> d = 3 \<or> d = 4 \<or> d = 5 \<or> d = 6 \<or> d = 7
     \<or> d = 8 \<or> d = 9 \<or> d = 10 \<or> d = 11 \<or> d = 12 \<or> d = 13 \<or> d = 14 \<or> d = (15::nat)"
  by arith

lemma hexVal_hexDigit: "d < 16 \<Longrightarrow> hexVal (hexDigit d) = Some d"
  by (drule below_16_cases) (elim disjE; simp add: hexVal_def hexDigit_def)

lemma hex4_control:
  "a < 16 \<Longrightarrow> b < 16 \<Longrightarrow> hex4 (CHR ''0'') (CHR ''0'') (hexDigit a) (hexDigit b) = Some (a * 16 + b)"
  by (simp add: hex4_def hexVal_hexDigit) (simp add: hexVal_def)

lemma unicodeStep_control:
  assumes "(of_char c :: nat) < 32"
  shows "unicodeStep (CHR ''0'' # CHR ''0'' # hexDigit (of_char c div 16) # hexDigit (of_char c mod 16) # rest)
           = Emit [c] rest"
proof -
  let ?n = "of_char c :: nat"
  from assms have "?n div 16 < 16" and "?n mod 16 < 16" by simp_all
  then have "hex4 (CHR ''0'') (CHR ''0'') (hexDigit (?n div 16)) (hexDigit (?n mod 16)) = Some ?n"
    using hex4_control [of "?n div 16" "?n mod 16"] by simp
  moreover from assms have "utf8 ?n = [c]"
    by (simp add: utf8_def)
  ultimately show ?thesis
    using assms by (simp add: unicodeStep_def)
qed

lemma stringStep_quoteChar: "stringStep (quoteChar c @ rest) = Emit [c] rest"
proof -
  consider "c = CHR 0x22" | "c = CHR 0x5C" | "c = CHR 0x08" | "c = CHR 0x0C" | "c = CHR 0x0A"
    | "c = CHR 0x0D" | "c = CHR 0x09"
    | "c \<noteq> CHR 0x22" "c \<noteq> CHR 0x5C" "c \<noteq> CHR 0x08" "c \<noteq> CHR 0x0C" "c \<noteq> CHR 0x0A"
      "c \<noteq> CHR 0x0D" "c \<noteq> CHR 0x09" "(of_char c :: nat) < 32"
    | "c \<noteq> CHR 0x22" "c \<noteq> CHR 0x5C" "\<not> (of_char c :: nat) < 32"
    by fastforce
  then show ?thesis
  proof cases
    case 8
    then show ?thesis
      using unicodeStep_control [of c rest]
      by (simp add: quoteChar_def stringStep_def escapeStep_def)
  next
    case 9
    then have "quoteChar c = [c]"
      by (auto simp: quoteChar_def)
    with 9 show ?thesis
      by (simp add: stringStep_def)
  qed (simp_all add: quoteChar_def stringStep_def escapeStep_def simpleEscape_def)
qed

lemma scanString_quoted:
  "scanString (concat (map quoteChar s) @ CHR 0x22 # rest) = Some (s, rest)"
proof (induction s)
  case Nil
  show ?case
    by (simp add: scanString.simps [of "CHR 0x22 # rest"] stringStep_def)
next
  case (Cons c s)
  have "scanString (quoteChar c @ concat (map quoteChar s) @ CHR 0x22 # rest) = Some (c # s, rest)"
    by (subst scanString.simps) (simp add: stringStep_quoteChar Cons.IH prepend_def)
  then show ?case by simp
qed

text \<open>A printed integer is read back as the integer.\<close>

lemma isDigit_digitChar: "d < 10 \<Longrightarrow> isDigit (digitChar d)"
  by (simp add: isDigit_def of_char_digitChar)

lemma digits_all_digits: "c \<in> set (digits n) \<Longrightarrow> isDigit c"
proof (induction n rule: digits.induct)
  case (1 n)
  show ?case
  proof (cases "n < 10")
    case True
    with "1.prems" show ?thesis
      by (simp add: digits.simps [of n] isDigit_digitChar)
  next
    case False
    with "1.prems" "1.IH" show ?thesis
      by (auto simp: digits.simps [of n] isDigit_digitChar)
  qed
qed

lemma hd_digits_zero: "hd (digits n) = CHR ''0'' \<Longrightarrow> n = 0"
proof (induction n rule: digits.induct)
  case (1 n)
  show ?case
  proof (cases "n < 10")
    case True
    with "1.prems" have "digitChar n = CHR ''0''"
      by (simp add: digits.simps [of n])
    then have "(of_char (digitChar n) :: nat) = 48" by simp
    with True show ?thesis by (simp add: of_char_digitChar)
  next
    case False
    with "1.prems" have "hd (digits (n div 10)) = CHR ''0''"
      by (simp add: digits.simps [of n] digits_not_Nil)
    with "1.IH" False have "n div 10 = 0" by simp
    with False show ?thesis by simp
  qed
qed

lemma digits_zero: "digits 0 = ''0''"
  by (simp add: digits.simps digitChar_def)

lemma takeWhile_digits: "ends_numeral rest \<Longrightarrow> (\<forall>c \<in> set ds. isDigit c) \<Longrightarrow>
    takeWhile isDigit (ds @ rest) = ds \<and> dropWhile isDigit (ds @ rest) = rest"
  by (induction ds) (auto simp: ends_numeral_def split: list.splits)

lemma scanFraction_none: "ends_numeral rest \<Longrightarrow> scanFraction rest = Some rest"
  by (auto simp: scanFraction_def ends_numeral_def split: list.splits)

lemma scanExponent_none: "ends_numeral rest \<Longrightarrow> scanExponent rest = Some rest"
  by (auto simp: scanExponent_def ends_numeral_def split: list.splits)

lemma scanUnsigned_digits:
  assumes "ends_numeral rest"
  shows "scanUnsigned (digits n @ rest) = Some (Some n, rest)"
proof -
  obtain d ds where ds: "digits n = d # ds"
    using digits_not_Nil [of n] by (cases "digits n") auto
  then have d: "isDigit d" and all: "\<forall>c \<in> set ds. isDigit c"
    using digits_all_digits [of _ n] by auto
  show ?thesis
  proof (cases "d = CHR ''0''")
    case True
    with ds have "n = 0" using hd_digits_zero [of n] by simp
    with ds True have "ds = []" by (simp add: digits_zero)
    with ds True d assms \<open>n = 0\<close> show ?thesis
      using numeralValue_digits [of 0]
      by (simp add: scanUnsigned_def scanFraction_none scanExponent_none digits_zero)
  next
    case False
    with ds d assms all show ?thesis
      using numeralValue_digits [of n] takeWhile_digits [of rest ds]
      by (simp add: scanUnsigned_def scanFraction_none scanExponent_none)
  qed
qed

lemma hd_digits_not_minus: "hd (digits n) \<noteq> CHR ''-''"
proof -
  obtain d ds where ds: "digits n = d # ds"
    using digits_not_Nil [of n] by (cases "digits n") auto
  then have "isDigit d" using digits_all_digits [of d n] by simp
  then have "d \<noteq> CHR ''-''" by (auto simp: isDigit_def)
  with ds show ?thesis by simp
qed

lemma scanNumber_toString:
  assumes "ends_numeral rest"
  shows "scanNumber (toString n @ rest) = Some (TNumber n, rest)"
proof (cases "n < 0")
  case True
  then show ?thesis
    using scanUnsigned_digits [OF assms, of "nat (- n)"]
    by (simp add: scanNumber_def toString_def)
next
  case False
  obtain d ds where ds: "digits (nat n) = d # ds"
    using digits_not_Nil [of "nat n"] by (cases "digits (nat n)") auto
  with hd_digits_not_minus [of "nat n"] have "d \<noteq> CHR ''-''" by simp
  with False ds show ?thesis
    using scanUnsigned_digits [OF assms, of "nat n"]
    by (simp add: scanNumber_def toString_def)
qed

text \<open>The first pass gives back the tokens that were printed.\<close>

lemma printTokens_simps [simp]:
  "printTokens [] = []"
  "printTokens (tk # tks) = printToken tk @ printTokens tks"
  by (simp_all add: printTokens_def)

lemma ends_numeral_boundary: "boundary tks \<Longrightarrow> ends_numeral (printTokens tks)"
  by (cases tks) (auto simp: boundary_def delimiter_def ends_numeral_def isDigit_def)

lemma isDigit_not_special:
  "isDigit c \<Longrightarrow> \<not> isWs c \<and> c \<noteq> CHR ''{'' \<and> c \<noteq> CHR ''}'' \<and> c \<noteq> CHR ''['' \<and> c \<noteq> CHR '']''
     \<and> c \<noteq> CHR '':'' \<and> c \<noteq> CHR '','' \<and> c \<noteq> CHR 0x22"
  by (auto simp: isDigit_def isWs_def)

lemma toString_first:
  obtains c cs where "toString n = c # cs" and "c = CHR ''-'' \<or> isDigit c"
proof (cases "n < 0")
  case True
  then have "toString n = CHR ''-'' # digits (nat (- n))" by (simp add: toString_def)
  then show ?thesis using that by blast
next
  case False
  obtain d ds where ds: "digits (nat n) = d # ds"
    using digits_not_Nil [of "nat n"] by (cases "digits (nat n)") auto
  then have "isDigit d" using digits_all_digits [of d "nat n"] by simp
  with False ds show ?thesis using that by (simp add: toString_def)
qed


lemma lexStep_number_branch:
  assumes "c = CHR ''-'' \<or> isDigit c"
  shows "lexStep (c # cs) = (case scanNumber (c # cs) of None \<Rightarrow> Bad | Some (tk, r) \<Rightarrow> Emit tk r)"
proof -
  from assms have "c \<noteq> CHR ''{''" "c \<noteq> CHR ''}''" "c \<noteq> CHR ''[''" "c \<noteq> CHR '']''"
     "c \<noteq> CHR '':''" "c \<noteq> CHR '',''" "c \<noteq> CHR 0x22"
    using isDigit_not_special [of c] by auto
  with assms show ?thesis
    unfolding lexStep_def list.case by (simp only: if_False if_True)
qed

lemma number_not_ws:
  assumes "c = CHR ''-'' \<or> isDigit c"
  shows "\<not> isWs c"
  using assms isDigit_not_special [of c] by (auto simp: isWs_def)

lemma lexStep_number:
  assumes "ends_numeral rest"
  shows "lexStep (toString n @ rest) = Emit (TNumber n) rest
         \<and> dropWhile isWs (toString n @ rest) = toString n @ rest"
proof -
  obtain c cs where t: "toString n = c # cs" and c: "c = CHR ''-'' \<or> isDigit c"
    by (rule toString_first)
  have "scanNumber (c # cs @ rest) = Some (TNumber n, rest)"
    using scanNumber_toString [OF assms, of n] t by simp
  then have "lexStep (c # cs @ rest) = Emit (TNumber n) rest"
    by (simp add: lexStep_number_branch [OF c])
  moreover have "dropWhile isWs (c # cs @ rest) = c # cs @ rest"
    using number_not_ws [OF c] by simp
  ultimately show ?thesis
    by (simp add: t)
qed

lemma lexStep_string:
  "lexStep (quote s @ rest) = Emit (TString s) rest
   \<and> dropWhile isWs (quote s @ rest) = quote s @ rest"
  using scanString_quoted [of s rest]
  by (simp add: lexStep_def quote_def isWs_def)

lemma lexStep_printToken:
  assumes "lexable (tk # tks)"
  shows "lexStep (printToken tk @ printTokens tks) = Emit tk (printTokens tks)
         \<and> dropWhile isWs (printToken tk @ printTokens tks) = printToken tk @ printTokens tks"
proof (cases tk)
  case (TString s)
  then show ?thesis using lexStep_string by simp
next
  case (TNumber n)
  with assms have "ends_numeral (printTokens tks)"
    by (simp add: ends_numeral_boundary)
  with TNumber show ?thesis using lexStep_number by simp
next
  case (TDecimal l)
  with assms show ?thesis by simp
qed (simp_all add: lexStep_def isWs_def isDigit_def startsWith_def)

lemma lex_printTokens: "lexable tks \<Longrightarrow> tokenize (printTokens tks) = Some tks"
proof (induction tks)
  case Nil
  show ?case by (simp add: tokenize.simps [of "[]"] lexStep_def)
next
  case (Cons tk tks)
  from Cons.prems have "lexable tks" by simp
  with Cons.IH have "tokenize (printTokens tks) = Some tks" by simp
  with lexStep_printToken [OF Cons.prems] show ?case
    by (simp add: tokenize.simps [of "printToken tk @ printTokens tks"])
qed

lemma separated_Cons: "separated (x # xs) = x @ concat (map ((#) TComma) xs)"
  by (induction xs arbitrary: x) simp_all

lemma boundary_commas:
  "delimiter d \<Longrightarrow> boundary (concat (map ((#) TComma) xs) @ d # tks)"
  by (cases xs) (simp_all add: boundary_def delimiter_def)

lemma lexable_delimiter: "delimiter d \<Longrightarrow> lexable (d # tks) = lexable tks"
  by (auto simp: delimiter_def)

lemma lexable_commas:
  assumes "\<And>x tks. x \<in> set xs \<Longrightarrow> boundary tks \<Longrightarrow> lexable (x @ tks) = lexable tks"
    and "delimiter d"
  shows "lexable (concat (map ((#) TComma) xs) @ d # tks) = lexable tks"
  using assms(1)
proof (induction xs)
  case Nil
  show ?case using lexable_delimiter [OF assms(2), of tks] by simp
next
  case (Cons x xs)
  have "lexable (x @ concat (map ((#) TComma) xs) @ d # tks)
      = lexable (concat (map ((#) TComma) xs) @ d # tks)"
    using Cons.prems [of x] boundary_commas [OF assms(2)] by simp
  also have "\<dots> = lexable tks"
    using Cons.IH Cons.prems by simp
  finally show ?case by simp
qed

lemma lexable_separated:
  assumes "\<And>x tks. x \<in> set xs \<Longrightarrow> boundary tks \<Longrightarrow> lexable (x @ tks) = lexable tks"
    and "delimiter d"
  shows "lexable (separated xs @ d # tks) = lexable tks"
proof (cases xs)
  case Nil
  then show ?thesis using lexable_delimiter [OF assms(2), of tks] by simp
next
  case (Cons x xs')
  have "lexable (x @ concat (map ((#) TComma) xs') @ d # tks)
      = lexable (concat (map ((#) TComma) xs') @ d # tks)"
    using assms(1) [of x] Cons boundary_commas [OF assms(2)] by simp
  also have "\<dots> = lexable tks"
    using lexable_commas [of xs' d tks] assms Cons by simp
  finally show ?thesis using Cons by (simp add: separated_Cons)
qed

lemma lexable_tokens:
  "noDecimal v \<Longrightarrow> boundary tks \<Longrightarrow> lexable (tokens v @ tks) = lexable tks"
proof (induction v arbitrary: tks)
  case (JArray vs)
  have "lexable (separated (map tokens vs) @ TRBrack # tks) = lexable tks"
  proof (rule lexable_separated)
    fix x tks' assume "x \<in> set (map tokens vs)" and b: "boundary tks'"
    then obtain v where "v \<in> set vs" and "x = tokens v" by auto
    moreover from this JArray.prems(1) have "noDecimal v"
      by (auto simp: list_all_iff)
    ultimately show "lexable (x @ tks') = lexable tks'"
      using JArray.IH b by simp
  qed (simp add: delimiter_def)
  then show ?case by simp
next
  case (JObject ms)
  let ?member = "\<lambda>(k, ts). TString k # TColon # ts"
  have "lexable (separated (map ?member (map (map_prod id tokens) ms)) @ TRBrace # tks) = lexable tks"
  proof (rule lexable_separated)
    fix x tks' assume "x \<in> set (map ?member (map (map_prod id tokens) ms))" and b: "boundary tks'"
    then obtain k v where m: "(k, v) \<in> set ms" and x: "x = TString k # TColon # tokens v"
      by auto
    from m JObject.prems(1) have "noDecimal v"
      by (auto simp: list_all_iff)
    with JObject.IH [of "(k, v)" v tks'] m b have "lexable (tokens v @ tks') = lexable tks'"
      by simp
    with x show "lexable (x @ tks') = lexable tks'" by simp
  qed (simp add: delimiter_def)
  then show ?case by simp
qed (simp_all add: boundary_def)

text \<open>The second pass gives back the value whose tokens it reads.\<close>

lemma run_append: "parserRun s (xs @ ys) = (case parserRun s xs of None \<Rightarrow> None | Some s' \<Rightarrow> parserRun s' ys)"
  by (induction xs arbitrary: s) (simp_all split: option.split)

lemma run_elements:
  assumes "\<And>v. v \<in> set vs \<Longrightarrow> fits (tokens v) v"
  shows "parserRun (AfterValue, ArrayFrame es # st) (concat (map ((#) TComma) (map tokens vs)) @ [TRBrack])
           = Some (deliver (JArray (rev es @ vs)) st)"
  using assms
proof (induction vs arbitrary: es)
  case Nil
  show ?case by (simp add: parserStep_def closeArray_def)
next
  case (Cons v vs)
  from Cons.prems have "fits (tokens v) v" by simp
  then have "parserRun (WantValue, ArrayFrame es # st) (tokens v) = Some (AfterValue, ArrayFrame (v # es) # st)"
    by (simp add: fits_def)
  moreover have "parserRun (AfterValue, ArrayFrame (v # es) # st)
       (concat (map ((#) TComma) (map tokens vs)) @ [TRBrack])
      = Some (deliver (JArray (rev (v # es) @ vs)) st)"
    using Cons.IH Cons.prems by simp
  ultimately show ?case
    by (simp add: parserStep_def run_append)
qed

lemma run_array:
  assumes "\<And>v. v \<in> set vs \<Longrightarrow> fits (tokens v) v"
  shows "fits (tokens (JArray vs)) (JArray vs)"
proof (cases vs)
  case Nil
  then show ?thesis
    by (simp add: fits_def parserStep_def startValue_def closeArray_def)
next
  case (Cons v vs')
  from assms Cons have "fits (tokens v) v" by simp
  then have first: "parserRun (WantValueOrClose, ArrayFrame [] # st) (tokens v)
      = Some (AfterValue, ArrayFrame [v] # st)" for st
    by (simp add: fits_def)
  have rest: "parserRun (AfterValue, ArrayFrame [v] # st)
       (concat (map ((#) TComma) (map tokens vs')) @ [TRBrack])
      = Some (deliver (JArray (v # vs')) st)" for st
    using run_elements [of vs' "[v]" st] assms Cons by simp
  from first rest Cons show ?thesis
    by (simp add: fits_def parserStep_def startValue_def separated_Cons run_append)
qed

lemma tokens_object:
  "tokens (JObject ms) = TLBrace # separated (map memberTokens ms) @ [TRBrace]"
  by (simp add: memberTokens_def comp_def case_prod_beta split_def)

lemma run_member:
  assumes "fits (tokens v) v"
  shows "parserRun (WantKey, ObjectFrame acc k0 # st) (memberTokens (k, v))
           = Some (AfterValue, ObjectFrame ((k, v) # acc) k # st)
         \<and> parserRun (WantKeyOrClose, ObjectFrame acc k0 # st) (memberTokens (k, v))
           = Some (AfterValue, ObjectFrame ((k, v) # acc) k # st)"
  using assms by (simp add: memberTokens_def fits_def parserStep_def setKey_def)

lemma run_members:
  assumes "\<And>m. m \<in> set ms \<Longrightarrow> fits (tokens (snd m)) (snd m)"
  shows "parserRun (AfterValue, ObjectFrame acc k0 # st)
           (concat (map ((#) TComma) (map memberTokens ms)) @ [TRBrace])
           = Some (deliver (JObject (rev acc @ ms)) st)"
  using assms
proof (induction ms arbitrary: acc k0)
  case Nil
  show ?case by (simp add: parserStep_def closeObject_def)
next
  case (Cons m ms)
  obtain k v where m: "m = (k, v)" by (cases m)
  with Cons.prems [of m] have "fits (tokens v) v" by simp
  then have "parserRun (WantKey, ObjectFrame acc k0 # st) (memberTokens (k, v))
      = Some (AfterValue, ObjectFrame ((k, v) # acc) k # st)"
    by (simp add: run_member)
  moreover have "parserRun (AfterValue, ObjectFrame ((k, v) # acc) k # st)
       (concat (map ((#) TComma) (map memberTokens ms)) @ [TRBrace])
      = Some (deliver (JObject (rev ((k, v) # acc) @ ms)) st)"
    using Cons.IH Cons.prems by simp
  ultimately show ?case
    by (simp add: m parserStep_def run_append)
qed

lemma run_object:
  assumes "\<And>m. m \<in> set ms \<Longrightarrow> fits (tokens (snd m)) (snd m)"
  shows "fits (tokens (JObject ms)) (JObject ms)"
proof (cases ms)
  case Nil
  then show ?thesis
    by (simp add: fits_def parserStep_def startValue_def closeObject_def)
next
  case (Cons m ms')
  obtain k v where m: "m = (k, v)" by (cases m)
  with assms [of m] Cons have "fits (tokens v) v" by simp
  then have first: "parserRun (WantKeyOrClose, ObjectFrame [] [] # st) (memberTokens (k, v))
      = Some (AfterValue, ObjectFrame [(k, v)] k # st)" for st
    by (simp add: run_member)
  have rest: "parserRun (AfterValue, ObjectFrame [(k, v)] k # st)
       (concat (map ((#) TComma) (map memberTokens ms')) @ [TRBrace])
      = Some (deliver (JObject ((k, v) # ms')) st)" for st
    using run_members [of ms' "[(k, v)]" k st] assms Cons by simp
  from first rest Cons m show ?thesis
    by (simp add: fits_def tokens_object parserStep_def startValue_def separated_Cons run_append
          del: tokens.simps)
qed

lemma fits_tokens: "fits (tokens v) v"
proof (induction v)
  case (JArray vs)
  then show ?case by (intro run_array) simp
next
  case (JObject ms)
  show ?case
  proof (rule run_object)
    fix m assume mem: "m \<in> set ms"
    obtain k v where m: "m = (k, v)" by (cases m)
    with mem JObject.IH [of "(k, v)" v] show "fits (tokens (snd m)) (snd m)"
      by simp
  qed
qed (simp_all add: fits_def parserStep_def startValue_def)

lemma parseTokens_tokens: "parseTokens (tokens v) = Some v"
  using fits_tokens [of v] by (simp add: parseTokens_def fits_def)

lemma parseJson_printJson: "noDecimal v \<Longrightarrow> parseJson (printJson v) = Some v"
proof -
  assume "noDecimal v"
  then have "lexable (tokens v)"
    using lexable_tokens [of v "[]"] by (simp add: boundary_def)
  then have "tokenize (printTokens (tokens v)) = Some (tokens v)"
    by (rule lex_printTokens)
  then show ?thesis
    by (simp add: parseJson_def printJson_def printTokens_def parseTokens_tokens)
qed

subsection \<open>Histories as JSON values\<close>

text \<open>The JSON value of a history is recognised as that history, and holds no \<open>JDecimal\<close>.\<close>

lemma those_map_Some: "(\<And>x. f (g x) = Some x) \<Longrightarrow> those (map (f \<circ> g) xs) = Some xs"
  by (induction xs) simp_all

lemma stringsOfJson_stringsToJson: "stringsOfJson (stringsToJson ss) = Some ss"
  by (simp add: stringsOfJson_def stringsToJson_def stringOfJson_def those_map_Some)

lemma sectionOfJson_sectionToJson: "sectionOfJson (sectionToJson sec) = Some sec"
  by (simp add: sectionOfJson_def sectionToJson_def)

lemma explanationOfJson_explanationToJson: "explanationOfJson (explanationToJson e) = Some e"
  by (cases e)
    (simp_all add: explanationOfJson_def explanationToJson_def those_map_Some
       sectionOfJson_sectionToJson)

lemma resultOfJson_resultToJson: "resultOfJson (resultToJson r) = Some r"
  by (simp add: resultOfJson_def resultToJson_def stringsOfJson_stringsToJson
        explanationOfJson_explanationToJson)

lemma itemOfJson_itemToJson: "itemOfJson (itemToJson x) = Some x"
  by (cases "fileName x") (simp_all add: itemOfJson_def itemToJson_def resultOfJson_resultToJson)

lemma historyOfJson_historyToJson: "historyOfJson (historyToJson h) = Some h"
  by (simp add: historyOfJson_def historyToJson_def those_map_Some itemOfJson_itemToJson)

lemma noDecimal_strings: "noDecimal (stringsToJson ss)"
  by (simp add: stringsToJson_def list_all_iff)

lemma noDecimal_explanation: "noDecimal (explanationToJson e)"
  by (cases e) (simp_all add: explanationToJson_def sectionToJson_def list_all_iff)

lemma noDecimal_result: "noDecimal (resultToJson r)"
  by (simp add: resultToJson_def noDecimal_strings noDecimal_explanation)

lemma noDecimal_item: "noDecimal (itemToJson x)"
  by (cases "fileName x") (simp_all add: itemToJson_def noDecimal_result)

lemma noDecimal_history: "noDecimal (historyToJson h)"
  by (simp add: historyToJson_def list_all_iff noDecimal_item)

lemma printJson_history_not_empty: "printJson (historyToJson h) \<noteq> []"
  by (simp add: printJson_def historyToJson_def)

subsection \<open>The JSON functions of the browser\<close>

text \<open>
  Reading the printed text of a value without \<open>JDecimal\<close> gives the value back
  (\<open>parseJson_printJson\<close>); so a browser reads the text it wrote for a history back as
  the JSON value of that history.
\<close>

lemma browser_reads_what_it_wrote:
  "JSON_parse (browser accepts client) (JSON_stringify (browser accepts client) h)
     = Some (historyToJson h)"
  by (simp add: browser_def parseJson_printJson noDecimal_history)

lemma browser_text_truthy: "truthy (JSON_stringify (browser accepts client) h)"
  by (simp add: browser_def truthy_def printJson_history_not_empty)

lemma setHistory_history: "setHistory s (historyToJson h) = Typed (s\<lparr>history := h\<rparr>)"
  by (simp add: setHistory_def historyOfJson_historyToJson)

lemma printJson_exampleItem: "printJson (historyToJson [exampleItem]) = exampleText"
  by (simp add: printJson_def historyToJson_def itemToJson_def resultToJson_def
        stringsToJson_def explanationToJson_def exampleItem_def exampleResult_def
        exampleText_def quote_def quoteChar_def toString_example)

lemma parseJson_exampleText: "parseJson exampleText = Some (historyToJson [exampleItem])"
  using parseJson_printJson [OF noDecimal_history, of "[exampleItem]"]
  by (simp add: printJson_exampleItem)

lemma printJson_olderItem: "printJson (historyToJson [olderItem]) = olderText"
  by (simp add: printJson_def historyToJson_def itemToJson_def resultToJson_def
        stringsToJson_def explanationToJson_def sectionToJson_def olderItem_def
        olderText_def quote_def quoteChar_def hexDigit_def
        toString_def digits.simps digitChar_def)

lemma parseJson_olderText: "parseJson olderText = Some (historyToJson [olderItem])"
  using parseJson_printJson [OF noDecimal_history, of "[olderItem]"]
  by (simp add: printJson_olderItem)

lemma parseJson_null: "parseJson ''null'' = Some JNull"
  by code_simp

lemma parseJson_object: \<open>parseJson ''{"a":1}'' = Some (JObject [(''a'', JNumber 1)])\<close>
  by code_simp

lemma parseJson_malformed: \<open>parseJson ''[{not json'' = None\<close>
  by code_simp

lemma examplePlatform_accepts: "setItem_accepts examplePlatform k v"
  by (simp add: examplePlatform_def browser_def)

subsection \<open>Order of the history\<close>

text \<open>
  C2. After any sequence of appends the history is the appended items, latest first,
  followed by the items that were there before, in their old order; one append puts
  its item at the head and leaves the rest as it was. The order follows the order of
  the calls only, whatever the timestamps are.
\<close>

theorem list_is_reverse_insertion_order:
  "history (fst (appendAll pf cs (s, w))) = rev (map itemOf cs) @ history s
   \<and> history (fst (snd (saveToHistory pf res p f clock (s, w)))) =
       itemOf (res, p, f, clock) # history s"
  by (simp add: appendAll_history saveToHistory_history itemOf_def)

theorem list_is_reverse_insertion_order_witness:
  "map timestamp (history (fst (appendAll examplePlatform
       [(exampleResult, ''first'', None, (1700000000000, 1700000000000)),
        (exampleResult, ''second'', None, (1700000000001, 1600000000000))]
       (initialState\<lparr>history := [exampleItem\<lparr>timestamp := 3\<rparr>]\<rparr>, emptyWorld))))
     = [1600000000000, 1700000000000, 3]
   \<and> map HistoryItem.prompt (history (fst (appendAll examplePlatform
       [(exampleResult, ''first'', None, (1700000000000, 1700000000000)),
        (exampleResult, ''second'', None, (1700000000001, 1600000000000))]
       (initialState\<lparr>history := [exampleItem\<lparr>timestamp := 3\<rparr>]\<rparr>, emptyWorld))))
     = [''second'', ''first'', ''Explain photosynthesis'']"
  using list_is_reverse_insertion_order [of examplePlatform
      "[(exampleResult, ''first'', None, (1700000000000, 1700000000000)),
        (exampleResult, ''second'', None, (1700000000001, 1600000000000))]"
      "initialState\<lparr>history := [exampleItem\<lparr>timestamp := 3\<rparr>]\<rparr>" emptyWorld]
  by (simp add: itemOf_def newItem_def truthy_def exampleItem_def)

subsection \<open>Deleting by id\<close>

text \<open>
  C10. One call of \<open>deleteHistoryItem\<close> removes every item whose id is the given one,
  not only the first: no item with that id is left, the items with another id are all
  kept, in their order, and the history shrinks by the number of items that had the id.
\<close>

theorem deleteHistoryItem_removes_every_match:
  "(\<forall>item \<in> set (history (fst (snd (deleteHistoryItem pf i (s, w))))). id' item \<noteq> i)
   \<and> filter (\<lambda>item. id' item \<noteq> i) (history (fst (snd (deleteHistoryItem pf i (s, w))))) =
       filter (\<lambda>item. id' item \<noteq> i) (history s)
   \<and> length (history s) =
       length (history (fst (snd (deleteHistoryItem pf i (s, w)))))
         + length (filter (\<lambda>item. id' item = i) (history s))"
  using sum_length_filter_compl [of "\<lambda>item. id' item = i" "history s"]
  by (simp add: deleteHistoryItem_history)

theorem deleteHistoryItem_removes_every_match_witness:
  "history (fst (snd (deleteHistoryItem examplePlatform ''1700000000000''
       (initialState\<lparr>history :=
          [exampleItem, exampleItem\<lparr>id' := ''8''\<rparr>, exampleItem\<lparr>timestamp := 3\<rparr>]\<rparr>,
        emptyWorld))))
     = [exampleItem\<lparr>id' := ''8''\<rparr>]
   \<and> length (filter (\<lambda>item. id' item = ''1700000000000'')
         [exampleItem, exampleItem\<lparr>id' := ''8''\<rparr>, exampleItem\<lparr>timestamp := 3\<rparr>]) = 2"
proof -
  let ?h = "[exampleItem, exampleItem\<lparr>id' := ''8''\<rparr>, exampleItem\<lparr>timestamp := 3\<rparr>]"
  let ?after = "history (fst (snd (deleteHistoryItem examplePlatform ''1700000000000''
       (initialState\<lparr>history := ?h\<rparr>, emptyWorld))))"
  have two: "length (filter (\<lambda>item. id' item = ''1700000000000'') ?h) = 2"
    by (simp add: exampleItem_def)
  have others: "filter (\<lambda>item. id' item \<noteq> ''1700000000000'') ?h = [exampleItem\<lparr>id' := ''8''\<rparr>]"
    by (simp add: exampleItem_def)
  note fact = deleteHistoryItem_removes_every_match
         [of examplePlatform "''1700000000000''" "initialState\<lparr>history := ?h\<rparr>" emptyWorld]
  from fact have none: "\<forall>item \<in> set ?after. id' item \<noteq> ''1700000000000''"
    by (rule conjunct1)
  from fact have "filter (\<lambda>item. id' item \<noteq> ''1700000000000'') ?after =
      filter (\<lambda>item. id' item \<noteq> ''1700000000000'') (history (initialState\<lparr>history := ?h\<rparr>))"
    by (rule conjunct1 [OF conjunct2])
  moreover from none have "filter (\<lambda>item. id' item \<noteq> ''1700000000000'') ?after = ?after"
    by (simp only: filter_True)
  ultimately have "?after = filter (\<lambda>item. id' item \<noteq> ''1700000000000'') ?h"
    by simp
  with others two show ?thesis
    by (simp only: simp_thms)
qed

subsection \<open>The prompt of a new item\<close>

text \<open>
  C9 (as amended). The item that \<open>saveToHistory\<close> puts at the head of the history
  carries the prompt it was given when that prompt is not empty. For the empty prompt
  it carries a placeholder instead: the document title when a non-empty file name comes
  with it, the text for untitled entries otherwise.
\<close>

theorem saveToHistory_prompt:
  "history (fst (snd (saveToHistory pf res p f clock (s, w)))) =
     newItem res p f (fst clock) (snd clock) # history s
   \<and> (p \<noteq> '''' \<longrightarrow> HistoryItem.prompt (newItem res p f (fst clock) (snd clock)) = p)
   \<and> (p = '''' \<longrightarrow> HistoryItem.prompt (newItem res p f (fst clock) (snd clock)) =
         (if f = None \<or> f = Some '''' then untitled else documentTitle))"
  by (auto simp: saveToHistory_history newItem_def truthy_def truthyOpt_def split: option.splits)

theorem saveToHistory_prompt_witness:
  "''Explain photosynthesis'' \<noteq> ''''
   \<and> map HistoryItem.prompt (history (fst (snd (saveToHistory examplePlatform exampleResult
         ''Explain photosynthesis'' None (1700000000000, 1700000000000)
         (initialState, emptyWorld))))) = [''Explain photosynthesis'']
   \<and> map HistoryItem.prompt (history (fst (snd (saveToHistory examplePlatform exampleResult
         '''' (Some ''notes.pdf'') (1700000000000, 1700000000000)
         (initialState, emptyWorld))))) = [documentTitle]"
  using saveToHistory_prompt [of examplePlatform exampleResult "''Explain photosynthesis''" None
          "(1700000000000, 1700000000000)" initialState emptyWorld]
        saveToHistory_prompt [of examplePlatform exampleResult "''''" "Some ''notes.pdf''"
          "(1700000000000, 1700000000000)" initialState emptyWorld]
  by (simp add: initialState_def)

text \<open>
  The claim as stated fails for the empty prompt: appended with no file name, it is
  stored as the text for untitled entries, which is not empty.
\<close>

theorem saveToHistory_prompt_counterexample:
  "map HistoryItem.prompt (history (fst (snd (saveToHistory examplePlatform exampleResult
       '''' None (1700000000000, 1700000000000) (initialState, emptyWorld))))) = [untitled]
   \<and> untitled \<noteq> ''''"
  by (simp add: saveToHistory_history newItem_def truthy_def truthyOpt_def initialState_def
        untitled_def)

subsection \<open>Rejecting the empty request\<close>

text \<open>
  C8. With an empty prompt and no file, \<open>handleAnalysis\<close> only sets the error message:
  the world is left as it was, so no request reaches the analysis client and the stored
  text is not touched, and the history is unchanged. Nothing is pending, so no other
  handler comes in between.
\<close>

theorem empty_request_rejected:
  "prompt s = '''' \<and> file' s = None \<longrightarrow>
     handleAnalysis pf clock pending (s, w) = (s\<lparr>error := Some emptyRequestMessage\<rparr>, w)
     \<and> requests (snd (handleAnalysis pf clock pending (s, w))) = requests w
     \<and> localStorage (snd (handleAnalysis pf clock pending (s, w))) = localStorage w
     \<and> history (fst (handleAnalysis pf clock pending (s, w))) = history s"
  by (simp add: handleAnalysis_def truthy_def)

theorem empty_request_rejected_witness:
  "prompt initialState = '''' \<and> file' initialState = None
   \<and> handleAnalysis examplePlatform (1700000000000, 1700000000000)
        (\<lambda>sw. snd (deleteHistoryItem examplePlatform ''1700000000000'' sw))
        (initialState, emptyWorld) =
       (initialState\<lparr>error := Some emptyRequestMessage\<rparr>, emptyWorld)
   \<and> requests (snd (handleAnalysis examplePlatform (1700000000000, 1700000000000)
        (\<lambda>sw. snd (deleteHistoryItem examplePlatform ''1700000000000'' sw))
        (initialState, emptyWorld))) = []"
  using empty_request_rejected [of initialState examplePlatform
          "(1700000000000, 1700000000000)"
          "\<lambda>sw. snd (deleteHistoryItem examplePlatform ''1700000000000'' sw)" emptyWorld]
  by (simp add: initialState_def emptyWorld_def)

subsection \<open>A write that fails\<close>

text \<open>
  C6 (as amended). When the storage refuses the write, \<open>saveToHistory\<close> and
  \<open>deleteHistoryItem\<close> have already updated the history in memory, and it stays
  updated; the stored text stays what it was; and the exception of \<open>setItem\<close> is not
  caught by either function: the call completes with \<open>QuotaExceededError\<close>.
\<close>

theorem write_failure_keeps_memory_and_propagates:
  "(\<not> setItem_accepts pf ''vipaii_history'' (JSON_stringify pf (newItem res p f (fst clock) (snd clock) # history s)) \<longrightarrow>
      saveToHistory pf res p f clock (s, w) =
        (Inl QuotaExceededError, s\<lparr>history := newItem res p f (fst clock) (snd clock) # history s\<rparr>, w))
   \<and> (\<not> setItem_accepts pf ''vipaii_history'' (JSON_stringify pf (filter (\<lambda>item. id' item \<noteq> i) (history s))) \<longrightarrow>
      deleteHistoryItem pf i (s, w) =
        (Inl QuotaExceededError, s\<lparr>history := filter (\<lambda>item. id' item \<noteq> i) (history s)\<rparr>, w))"
  by (simp add: saveToHistory_def deleteHistoryItem_def setItem_def getItem_def Let_def)

theorem write_failure_keeps_memory_and_propagates_witness:
  "\<not> setItem_accepts fullStoragePlatform ''vipaii_history'' (JSON_stringify fullStoragePlatform
        (newItem exampleResult ''Explain photosynthesis'' None 1700000000000 1700000000000
           # history initialState))
   \<and> saveToHistory fullStoragePlatform exampleResult ''Explain photosynthesis'' None
        (1700000000000, 1700000000000) (initialState, emptyWorld) =
       (Inl QuotaExceededError, initialState\<lparr>history := [exampleItem]\<rparr>, emptyWorld)
   \<and> \<not> setItem_accepts fullStoragePlatform ''vipaii_history'' (JSON_stringify fullStoragePlatform
        (filter (\<lambda>item. id' item \<noteq> ''1700000000000'')
           (history (initialState\<lparr>history := [exampleItem]\<rparr>))))
   \<and> deleteHistoryItem fullStoragePlatform ''1700000000000''
        (initialState\<lparr>history := [exampleItem]\<rparr>, emptyWorld\<lparr>localStorage := [''vipaii_history'' \<mapsto> exampleText]\<rparr>) =
       (Inl QuotaExceededError, initialState\<lparr>history := []\<rparr>,
        emptyWorld\<lparr>localStorage := [''vipaii_history'' \<mapsto> exampleText]\<rparr>)"
proof -
  have refused: "\<not> setItem_accepts fullStoragePlatform ''vipaii_history'' v" for v
    by (simp add: fullStoragePlatform_def)
  have removed: "filter (\<lambda>item. id' item \<noteq> ''1700000000000'')
      (history (initialState\<lparr>history := [exampleItem]\<rparr>)) = []"
    by (simp add: exampleItem_def)
  note fact = write_failure_keeps_memory_and_propagates
  from fact [where pf = fullStoragePlatform and res = exampleResult
          and p = "''Explain photosynthesis''" and f = None
          and clock = "(1700000000000, 1700000000000)" and s = initialState and w = emptyWorld]
       refused
  have a: "saveToHistory fullStoragePlatform exampleResult ''Explain photosynthesis'' None
        (1700000000000, 1700000000000) (initialState, emptyWorld) =
       (Inl QuotaExceededError,
        initialState\<lparr>history := newItem exampleResult ''Explain photosynthesis'' None
           1700000000000 1700000000000 # history initialState\<rparr>, emptyWorld)"
    by simp
  from fact [where pf = fullStoragePlatform and i = "''1700000000000''"
          and s = "initialState\<lparr>history := [exampleItem]\<rparr>"
          and w = "emptyWorld\<lparr>localStorage := [''vipaii_history'' \<mapsto> exampleText]\<rparr>"]
       refused
  have b: "deleteHistoryItem fullStoragePlatform ''1700000000000''
        (initialState\<lparr>history := [exampleItem]\<rparr>, emptyWorld\<lparr>localStorage := [''vipaii_history'' \<mapsto> exampleText]\<rparr>) =
       (Inl QuotaExceededError,
        initialState\<lparr>history := [exampleItem], history :=
          filter (\<lambda>item. id' item \<noteq> ''1700000000000'')
            (history (initialState\<lparr>history := [exampleItem]\<rparr>))\<rparr>,
        emptyWorld\<lparr>localStorage := [''vipaii_history'' \<mapsto> exampleText]\<rparr>)"
    by simp
  from a b refused removed show ?thesis
    by (simp add: newItem_example initialState_def)
qed

text \<open>
  The claim as stated fails: with a full storage the exception leaves
  \<open>deleteHistoryItem\<close>, and \<open>saveToHistory\<close> as well, instead of being caught inside.
\<close>

theorem write_failure_caught_counterexample:
  "fst (deleteHistoryItem fullStoragePlatform ''1700000000000''
        (initialState\<lparr>history := [exampleItem]\<rparr>, emptyWorld\<lparr>localStorage := [''vipaii_history'' \<mapsto> exampleText]\<rparr>))
     = Inl QuotaExceededError
   \<and> fst (saveToHistory fullStoragePlatform exampleResult ''Explain photosynthesis'' None
        (1700000000000, 1700000000000) (initialState, emptyWorld))
     = Inl QuotaExceededError"
  by (simp add: deleteHistoryItem_def saveToHistory_def setItem_def getItem_def Let_def
        fullStoragePlatform_def)

subsection \<open>Deleting: what is removed, what is written and what is returned\<close>

text \<open>
  C3 (as amended). After \<open>deleteHistoryItem\<close> no item of the history has the given id,
  and the items with another id are all kept, in their order; nothing else in the state
  changes. When no item had the id, the history in memory is what it was; a second call
  with the same id leaves the history as the first call left it. The resulting history
  is written to the storage: when the storage accepts the write, the stored text is the
  text of the resulting history and the call returns \<open>undefined\<close>; when it refuses, the
  storage is left as it was and the call completes with the exception of \<open>setItem\<close>.
  In no case does the call return a boolean.
\<close>

theorem deleteHistoryItem_by_id:
  "(\<forall>item \<in> set (history (fst (snd (deleteHistoryItem pf i (s, w))))). id' item \<noteq> i)
   \<and> filter (\<lambda>item. id' item \<noteq> i) (history (fst (snd (deleteHistoryItem pf i (s, w))))) =
       filter (\<lambda>item. id' item \<noteq> i) (history s)
   \<and> fst (snd (deleteHistoryItem pf i (s, w))) =
       s\<lparr>history := history (fst (snd (deleteHistoryItem pf i (s, w))))\<rparr>
   \<and> (i \<notin> id' ` set (history s) \<longrightarrow>
        history (fst (snd (deleteHistoryItem pf i (s, w)))) = history s)
   \<and> history (fst (snd (deleteHistoryItem pf i (snd (deleteHistoryItem pf i (s, w)))))) =
       history (fst (snd (deleteHistoryItem pf i (s, w))))
   \<and> fst (deleteHistoryItem pf i (s, w)) \<noteq> Inr (Boolean b)
   \<and> (setItem_accepts pf ''vipaii_history''
          (JSON_stringify pf (history (fst (snd (deleteHistoryItem pf i (s, w)))))) \<longrightarrow>
        fst (deleteHistoryItem pf i (s, w)) = Inr Undefined
        \<and> snd (snd (deleteHistoryItem pf i (s, w))) =
            w\<lparr>localStorage := (localStorage w)(''vipaii_history'' \<mapsto>
                 JSON_stringify pf (history (fst (snd (deleteHistoryItem pf i (s, w))))))\<rparr>)
   \<and> (\<not> setItem_accepts pf ''vipaii_history''
          (JSON_stringify pf (history (fst (snd (deleteHistoryItem pf i (s, w)))))) \<longrightarrow>
        fst (deleteHistoryItem pf i (s, w)) = Inl QuotaExceededError
        \<and> snd (snd (deleteHistoryItem pf i (s, w))) = w)"
proof -
  let ?kept = "filter (\<lambda>item. id' item \<noteq> i) (history s)"
  obtain out s' w' where r: "deleteHistoryItem pf i (s, w) = (out, s', w')"
    by (cases "deleteHistoryItem pf i (s, w)") auto
  have h: "history s' = ?kept"
    using deleteHistoryItem_history [of pf i s w] r by simp
  have state: "s' = s\<lparr>history := ?kept\<rparr>"
    using r by (simp add: deleteHistoryItem_def Let_def split: sum.splits)
  have none: "\<forall>item \<in> set (history s'). id' item \<noteq> i"
    by (simp add: h)
  have others: "filter (\<lambda>item. id' item \<noteq> i) (history s') = ?kept"
    by (simp add: h)
  have same: "i \<notin> id' ` set (history s) \<longrightarrow> history s' = history s"
  proof
    assume "i \<notin> id' ` set (history s)"
    then have "\<forall>item \<in> set (history s). id' item \<noteq> i"
      by auto
    then show "history s' = history s"
      by (simp add: h)
  qed
  have again: "history (fst (snd (deleteHistoryItem pf i (s', w')))) = history s'"
    using deleteHistoryItem_history [of pf i s' w'] by (simp add: h)
  have accepted: "out = Inr Undefined
      \<and> w' = w\<lparr>localStorage := (localStorage w)(''vipaii_history'' \<mapsto> JSON_stringify pf ?kept)\<rparr>"
    if "setItem_accepts pf ''vipaii_history'' (JSON_stringify pf ?kept)"
    using r that by (simp add: deleteHistoryItem_def setItem_def Let_def)
  have refused: "out = Inl QuotaExceededError \<and> w' = w"
    if "\<not> setItem_accepts pf ''vipaii_history'' (JSON_stringify pf ?kept)"
    using r that by (simp add: deleteHistoryItem_def setItem_def Let_def)
  from accepted refused have "out \<noteq> Inr (Boolean b)"
    by (cases "setItem_accepts pf ''vipaii_history'' (JSON_stringify pf ?kept)") auto
  with none others same again accepted refused state show ?thesis
    by (simp add: r h)
qed

theorem deleteHistoryItem_by_id_witness:
  "history (fst (snd (deleteHistoryItem examplePlatform ''1700000000000''
         (initialState\<lparr>history := [exampleItem, olderItem]\<rparr>, emptyWorld)))) = [olderItem]
   \<and> setItem_accepts examplePlatform ''vipaii_history'' (JSON_stringify examplePlatform [olderItem])
   \<and> fst (deleteHistoryItem examplePlatform ''1700000000000''
         (initialState\<lparr>history := [exampleItem, olderItem]\<rparr>, emptyWorld)) = Inr Undefined
   \<and> getItem (snd (snd (deleteHistoryItem examplePlatform ''1700000000000''
         (initialState\<lparr>history := [exampleItem, olderItem]\<rparr>, emptyWorld)))) ''vipaii_history''
       = Some (JSON_stringify examplePlatform [olderItem])
   \<and> ''8'' \<notin> id' ` set (history (initialState\<lparr>history := [exampleItem, olderItem]\<rparr>))
   \<and> history (fst (snd (deleteHistoryItem examplePlatform ''8''
         (initialState\<lparr>history := [exampleItem, olderItem]\<rparr>, emptyWorld))))
       = [exampleItem, olderItem]
   \<and> \<not> setItem_accepts fullStoragePlatform ''vipaii_history''
         (JSON_stringify fullStoragePlatform [olderItem])
   \<and> deleteHistoryItem fullStoragePlatform ''1700000000000''
         (initialState\<lparr>history := [exampleItem, olderItem]\<rparr>, emptyWorld)
       = (Inl QuotaExceededError, initialState\<lparr>history := [olderItem]\<rparr>, emptyWorld)"
proof -
  let ?s = "initialState\<lparr>history := [exampleItem, olderItem]\<rparr>"
  have kept: "filter (\<lambda>item. id' item \<noteq> ''1700000000000'') (history ?s) = [olderItem]"
    by (simp add: exampleItem_def olderItem_def)
  have absent: "''8'' \<notin> id' ` set (history ?s)"
    by (simp add: exampleItem_def olderItem_def)
  have refuses: "\<not> setItem_accepts fullStoragePlatform k v" for k v
    by (simp add: fullStoragePlatform_def)
  note present = deleteHistoryItem_by_id [of examplePlatform "''1700000000000''" ?s emptyWorld]
  note missing = deleteHistoryItem_by_id [of examplePlatform "''8''" ?s emptyWorld]
  note full = deleteHistoryItem_by_id [of fullStoragePlatform "''1700000000000''" ?s emptyWorld]
  from present have none: "\<forall>item \<in> set (history (fst (snd (deleteHistoryItem examplePlatform
      ''1700000000000'' (?s, emptyWorld))))). id' item \<noteq> ''1700000000000''"
    by (rule conjunct1)
  from present have "filter (\<lambda>item. id' item \<noteq> ''1700000000000'')
      (history (fst (snd (deleteHistoryItem examplePlatform ''1700000000000'' (?s, emptyWorld)))))
      = filter (\<lambda>item. id' item \<noteq> ''1700000000000'') (history ?s)"
    by (rule conjunct1 [OF conjunct2])
  moreover from none have "filter (\<lambda>item. id' item \<noteq> ''1700000000000'')
      (history (fst (snd (deleteHistoryItem examplePlatform ''1700000000000'' (?s, emptyWorld)))))
      = history (fst (snd (deleteHistoryItem examplePlatform ''1700000000000'' (?s, emptyWorld))))"
    by (simp only: filter_True)
  ultimately have a: "history (fst (snd (deleteHistoryItem examplePlatform ''1700000000000''
      (?s, emptyWorld)))) = [olderItem]"
    using kept by simp
  from present a examplePlatform_accepts
  have b: "fst (deleteHistoryItem examplePlatform ''1700000000000'' (?s, emptyWorld)) = Inr Undefined
      \<and> getItem (snd (snd (deleteHistoryItem examplePlatform ''1700000000000'' (?s, emptyWorld))))
            ''vipaii_history'' = Some (JSON_stringify examplePlatform [olderItem])"
    by (simp add: getItem_def)
  from missing absent
  have c: "history (fst (snd (deleteHistoryItem examplePlatform ''8'' (?s, emptyWorld))))
      = [exampleItem, olderItem]"
    by simp
  from full have "\<forall>item \<in> set (history (fst (snd (deleteHistoryItem fullStoragePlatform
      ''1700000000000'' (?s, emptyWorld))))). id' item \<noteq> ''1700000000000''"
    by (rule conjunct1)
  then have "filter (\<lambda>item. id' item \<noteq> ''1700000000000'')
      (history (fst (snd (deleteHistoryItem fullStoragePlatform ''1700000000000'' (?s, emptyWorld)))))
      = history (fst (snd (deleteHistoryItem fullStoragePlatform ''1700000000000'' (?s, emptyWorld))))"
    by (simp only: filter_True)
  moreover from full have "filter (\<lambda>item. id' item \<noteq> ''1700000000000'')
      (history (fst (snd (deleteHistoryItem fullStoragePlatform ''1700000000000'' (?s, emptyWorld)))))
      = filter (\<lambda>item. id' item \<noteq> ''1700000000000'') (history ?s)"
    by (rule conjunct1 [OF conjunct2])
  ultimately have d: "history (fst (snd (deleteHistoryItem fullStoragePlatform ''1700000000000''
      (?s, emptyWorld)))) = [olderItem]"
    using kept by simp
  from full d refuses
  have e: "fst (deleteHistoryItem fullStoragePlatform ''1700000000000'' (?s, emptyWorld))
        = Inl QuotaExceededError
      \<and> fst (snd (deleteHistoryItem fullStoragePlatform ''1700000000000'' (?s, emptyWorld)))
        = ?s\<lparr>history := [olderItem]\<rparr>
      \<and> snd (snd (deleteHistoryItem fullStoragePlatform ''1700000000000'' (?s, emptyWorld)))
        = emptyWorld"
    by simp
  then have f: "deleteHistoryItem fullStoragePlatform ''1700000000000'' (?s, emptyWorld)
       = (Inl QuotaExceededError, initialState\<lparr>history := [olderItem]\<rparr>, emptyWorld)"
    by (cases "deleteHistoryItem fullStoragePlatform ''1700000000000'' (?s, emptyWorld)") simp
  from a b c absent f refuses examplePlatform_accepts show ?thesis
    by simp
qed

text \<open>
  The claim as stated fails on the returned value: the call that removes the only item
  does not return \<open>true\<close>, it returns \<open>undefined\<close>, as does the second call with the same
  id, which removes nothing.
\<close>

theorem deleteHistoryItem_returns_boolean_counterexample:
  "history (fst (snd (deleteHistoryItem examplePlatform ''1700000000000''
        (initialState\<lparr>history := [exampleItem]\<rparr>, emptyWorld)))) = []
   \<and> fst (deleteHistoryItem examplePlatform ''1700000000000''
        (initialState\<lparr>history := [exampleItem]\<rparr>, emptyWorld)) \<noteq> Inr (Boolean True)
   \<and> fst (deleteHistoryItem examplePlatform ''1700000000000''
        (initialState\<lparr>history := [exampleItem]\<rparr>, emptyWorld)) = Inr Undefined
   \<and> fst (deleteHistoryItem examplePlatform ''1700000000000''
        (snd (deleteHistoryItem examplePlatform ''1700000000000''
          (initialState\<lparr>history := [exampleItem]\<rparr>, emptyWorld)))) = Inr Undefined"
  by (simp add: deleteHistoryItem_def setItem_def Let_def examplePlatform_accepts exampleItem_def)

subsection \<open>Loading\<close>

text \<open>
  When nothing is stored, and when \<open>JSON.parse\<close> throws, the mount effect leaves the
  state as it was, so a component that starts keeps its empty history; in the second
  case the error is logged. The effect never completes with an exception.
\<close>

lemma loadHistory_absent_or_syntax_error:
  "fst (loadHistory pf (s, w)) = Inr Undefined
   \<and> (getItem w ''vipaii_history'' = None \<longrightarrow> snd (loadHistory pf (s, w)) = (Typed s, w))
   \<and> (getItem w ''vipaii_history'' = Some saved \<and> JSON_parse pf saved = None \<longrightarrow>
        fst (snd (loadHistory pf (s, w))) = Typed s)"
  by (simp add: loadHistory_def split: option.split)

lemma restart_on_malformed_text:
  "fst (restart examplePlatform (emptyWorld\<lparr>localStorage := [''vipaii_history'' \<mapsto> ''[{not json'']\<rparr>))
     = Typed initialState"
  by (simp add: restart_def loadHistory_def getItem_def truthy_def examplePlatform_def
        browser_def parseJson_malformed)

text \<open>
  C4. The claim fails on a stored text that is JSON but not a history. For the stored
  text \<open>null\<close>, \<open>JSON.parse\<close> returns \<open>null\<close> without throwing, the \<open>catch\<close> block is not
  entered (nothing is logged), and \<open>history\<close> holds \<open>null\<close> instead of the empty sequence;
  likewise for the stored text of an object.
\<close>

theorem loadHistory_keeps_wrong_shape:
  \<open>loadHistory examplePlatform
       (initialState, emptyWorld\<lparr>localStorage := [''vipaii_history'' \<mapsto> ''null'']\<rparr>)
     = (Inr Undefined, Untyped initialState JNull,
        emptyWorld\<lparr>localStorage := [''vipaii_history'' \<mapsto> ''null'']\<rparr>)
   \<and> fst (restart examplePlatform (emptyWorld\<lparr>localStorage := [''vipaii_history'' \<mapsto> ''null'']\<rparr>))
       \<noteq> Typed initialState
   \<and> history initialState = []
   \<and> fst (restart examplePlatform
         (emptyWorld\<lparr>localStorage := [''vipaii_history'' \<mapsto> ''{"a":1}'']\<rparr>))
       = Untyped initialState (JObject [(''a'', JNumber 1)])\<close>
  by (simp add: restart_def loadHistory_def getItem_def truthy_def examplePlatform_def
        browser_def parseJson_null parseJson_object setHistory_def historyOfJson_def
        initialState_def)

subsection \<open>Appending and restarting\<close>

text \<open>
  C5. Take a browser, whatever its storage accepts and its client answers, and any
  state and world. Append an item and let the storage accept the write. Then a restart
  on the world left behind gives the component with exactly the history that was in
  memory after the append: the same items, field by field, in the same order. (When the
  storage refuses the write, the history in memory does not survive a restart, as
  section 4.1 of the specification says.)
\<close>

theorem append_then_restart_round_trip:
  assumes "saveToHistory (browser accepts client) res p f clock (s, w) = (out, s', w')"
    and "accepts ''vipaii_history'' (JSON_stringify (browser accepts client) (history s'))"
  shows "fst (restart (browser accepts client) w') = Typed (initialState\<lparr>history := history s'\<rparr>)
         \<and> history s' = newItem res p f (fst clock) (snd clock) # history s"
proof -
  let ?pf = "browser accepts client"
  let ?updated = "newItem res p f (fst clock) (snd clock) # history s"
  from assms(1) have mem: "history s' = ?updated"
    using saveToHistory_history [of ?pf res p f clock s w] by simp
  have "setItem_accepts ?pf = accepts"
    by (simp add: browser_def)
  with assms(2) mem have "setItem_accepts ?pf ''vipaii_history'' (JSON_stringify ?pf ?updated)"
    by simp
  with assms(1) have "w' = w\<lparr>localStorage :=
      (localStorage w)(''vipaii_history'' \<mapsto> JSON_stringify ?pf ?updated)\<rparr>"
    by (simp add: saveToHistory_def setItem_def Let_def)
  with mem have stored: "getItem w' ''vipaii_history'' = Some (JSON_stringify ?pf (history s'))"
    by (simp add: getItem_def)
  have "fst (restart ?pf w') = Typed (initialState\<lparr>history := history s'\<rparr>)"
    using stored browser_text_truthy [of accepts client "history s'"]
      browser_reads_what_it_wrote [of accepts client "history s'"]
    by (simp add: restart_def loadHistory_def setHistory_history)
  with mem show ?thesis
    by simp
qed

theorem append_then_restart_round_trip_witness:
  "saveToHistory examplePlatform exampleResult ''Explain photosynthesis'' None
       (1700000000000, 1700000000000)
       (exampleState\<lparr>history := [olderItem]\<rparr>,
        emptyWorld\<lparr>localStorage := [''vipaii_history'' \<mapsto> olderText]\<rparr>) =
     (Inr Undefined, exampleState\<lparr>history := [exampleItem, olderItem]\<rparr>,
      emptyWorld\<lparr>localStorage :=
        [''vipaii_history'' \<mapsto> JSON_stringify examplePlatform [exampleItem, olderItem]]\<rparr>)
   \<and> setItem_accepts examplePlatform ''vipaii_history''
        (JSON_stringify examplePlatform [exampleItem, olderItem])
   \<and> fst (restart examplePlatform (emptyWorld\<lparr>localStorage :=
        [''vipaii_history'' \<mapsto> JSON_stringify examplePlatform [exampleItem, olderItem]]\<rparr>))
       = Typed (initialState\<lparr>history := [exampleItem, olderItem]\<rparr>)"
proof -
  let ?w' = "emptyWorld\<lparr>localStorage :=
        [''vipaii_history'' \<mapsto> JSON_stringify examplePlatform [exampleItem, olderItem]]\<rparr>"
  have run: "saveToHistory examplePlatform exampleResult ''Explain photosynthesis'' None
       (1700000000000, 1700000000000)
       (exampleState\<lparr>history := [olderItem]\<rparr>,
        emptyWorld\<lparr>localStorage := [''vipaii_history'' \<mapsto> olderText]\<rparr>) =
     (Inr Undefined, exampleState\<lparr>history := [exampleItem, olderItem]\<rparr>, ?w')"
    by (simp add: saveToHistory_def setItem_def Let_def newItem_example examplePlatform_accepts
          emptyWorld_def)
  have accepted: "(\<lambda>k v. True) ''vipaii_history''
      (JSON_stringify (browser (\<lambda>k v. True) (\<lambda>d m p. Inr exampleResult))
         (history (exampleState\<lparr>history := [exampleItem, olderItem]\<rparr>)))"
    by simp
  from append_then_restart_round_trip [OF run [unfolded examplePlatform_def] accepted]
  have "fst (restart examplePlatform ?w') = Typed (initialState\<lparr>history := [exampleItem, olderItem]\<rparr>)"
    by (simp add: examplePlatform_def)
  with run examplePlatform_accepts show ?thesis
    by simp
qed

text \<open>
  The case that section 4.1 sets aside: with a storage that refuses the write, the item
  is in the history in memory and a restart finds nothing stored.
\<close>

lemma refused_write_does_not_survive_restart:
  "history (fst (snd (saveToHistory fullStoragePlatform exampleResult ''Explain photosynthesis''
       None (1700000000000, 1700000000000) (initialState, emptyWorld)))) = [exampleItem]
   \<and> fst (restart fullStoragePlatform (snd (snd (saveToHistory fullStoragePlatform
       exampleResult ''Explain photosynthesis'' None (1700000000000, 1700000000000)
       (initialState, emptyWorld))))) = Typed initialState"
  by (simp add: saveToHistory_def setItem_def Let_def fullStoragePlatform_def newItem_example
        restart_def loadHistory_def getItem_def emptyWorld_def initialState_def)

subsection \<open>The outcome of an analysis request\<close>

text \<open>
  What \<open>handleAnalysis\<close> does with a request that is not rejected as empty. When the
  client fails, it touches neither the history nor the storage: both are what the
  handlers that ran in the meantime left. When the client succeeds, the history becomes
  the new item followed by the history of the state in which the request was started.
\<close>

lemma handleAnalysis_failure:
  assumes "prompt s \<noteq> '''' \<or> file' s \<noteq> None"
    and "analyzeContent pf (payloadArg s) (mediaTypeArg s) (prompt s) = Inl e"
    and "pending (s\<lparr>loading := True, error := None\<rparr>,
                  w\<lparr>requests := (payloadArg s, mediaTypeArg s, prompt s) # requests w\<rparr>) = (s1, w1)"
  shows "handleAnalysis pf clock pending (s, w) =
           (s1\<lparr>error := Some analysisErrorMessage, loading := False\<rparr>,
            w1\<lparr>console_errors := Suc (console_errors w1)\<rparr>)"
  using assms by (auto simp: handleAnalysis_def truthy_def)

lemma handleAnalysis_success:
  assumes "prompt s \<noteq> '''' \<or> file' s \<noteq> None"
    and "analyzeContent pf (payloadArg s) (mediaTypeArg s) (prompt s) = Inr a"
  shows "history (fst (handleAnalysis pf clock pending (s, w))) =
           newItem a (prompt s) (fileNameArg s) (fst clock) (snd clock) # history s"
  using assms
  by (auto simp: handleAnalysis_def truthy_def saveToHistory_def setItem_def Let_def
        split: prod.splits)

text \<open>
  C7. The claim fails when an item is deleted while the request is pending. The store
  holds \<open>olderItem\<close>, in memory and as text; the request is started; \<open>olderItem\<close> is
  deleted, which leaves the history empty and the text of the empty history stored; the
  client succeeds. What follows is not an append to the sequence of the store: the
  history becomes the new item followed by the deleted one, and that is what is stored.
\<close>

theorem handleAnalysis_undoes_pending_delete:
  "deleteHistoryItem examplePlatform ''1600000000000''
       (exampleState\<lparr>history := [olderItem], loading := True, error := None\<rparr>,
        emptyWorld\<lparr>localStorage := [''vipaii_history'' \<mapsto> olderText],
          requests := [(None, None, ''Explain photosynthesis'')]\<rparr>)
     = (Inr Undefined,
        exampleState\<lparr>history := [], loading := True, error := None\<rparr>,
        emptyWorld\<lparr>localStorage := [''vipaii_history'' \<mapsto> JSON_stringify examplePlatform []],
          requests := [(None, None, ''Explain photosynthesis'')]\<rparr>)
   \<and> history (fst (handleAnalysis examplePlatform (1700000000000, 1700000000000)
       (\<lambda>sw. snd (deleteHistoryItem examplePlatform ''1600000000000'' sw))
       (exampleState\<lparr>history := [olderItem]\<rparr>,
        emptyWorld\<lparr>localStorage := [''vipaii_history'' \<mapsto> olderText]\<rparr>)))
       = [exampleItem, olderItem]
   \<and> getItem (snd (handleAnalysis examplePlatform (1700000000000, 1700000000000)
       (\<lambda>sw. snd (deleteHistoryItem examplePlatform ''1600000000000'' sw))
       (exampleState\<lparr>history := [olderItem]\<rparr>,
        emptyWorld\<lparr>localStorage := [''vipaii_history'' \<mapsto> olderText]\<rparr>))) ''vipaii_history''
       = Some (JSON_stringify examplePlatform [exampleItem, olderItem])"
proof -
  have client: "analyzeContent examplePlatform d m p = Inr exampleResult" for d m p
    by (simp add: examplePlatform_def browser_def)
  have item: "newItem exampleResult ''Explain photosynthesis'' None 1700000000000 1700000000000
      = exampleItem"
    by (rule newItem_example)
  show ?thesis
    by (simp add: handleAnalysis_def deleteHistoryItem_def saveToHistory_def setItem_def
          getItem_def Let_def truthy_def client item examplePlatform_accepts exampleState_def
          initialState_def fileNameArg_def payloadArg_def mediaTypeArg_def olderItem_def
          emptyWorld_def)
qed

subsection \<open>Ids\<close>

text \<open>
  C1 (as amended). The id of a new item is the decimal numeral of the clock reading.
  If the ids of the history are pairwise different and that numeral is not among them,
  they are pairwise different after the append. Two appends in sequence whose clock
  readings differ put two items with different ids at the head of the history, the
  later one first.
\<close>

theorem saveToHistory_ids:
  "(distinct (map id' (history s)) \<and> toString (fst clock) \<notin> id' ` set (history s) \<longrightarrow>
      distinct (map id' (history (fst (snd (saveToHistory pf res p f clock (s, w)))))))
   \<and> (fst c1 \<noteq> fst c2 \<longrightarrow>
      history (fst (appendAll pf [(r1, p1, f1, c1), (r2, p2, f2, c2)] (s, w))) =
        itemOf (r2, p2, f2, c2) # itemOf (r1, p1, f1, c1) # history s
      \<and> id' (itemOf (r2, p2, f2, c2)) \<noteq> id' (itemOf (r1, p1, f1, c1)))"
proof -
  have one: "distinct (map id' (history s)) \<and> toString (fst clock) \<notin> id' ` set (history s) \<longrightarrow>
      distinct (map id' (history (fst (snd (saveToHistory pf res p f clock (s, w))))))"
    by (simp add: saveToHistory_history newItem_def)
  have two: "history (fst (appendAll pf [(r1, p1, f1, c1), (r2, p2, f2, c2)] (s, w))) =
        itemOf (r2, p2, f2, c2) # itemOf (r1, p1, f1, c1) # history s"
    by (simp add: appendAll_history del: appendAll.simps)
  have ids: "id' (itemOf (r2, p2, f2, c2)) \<noteq> id' (itemOf (r1, p1, f1, c1))"
    if "fst c1 \<noteq> fst c2"
    using that toString_inj [of "fst c2" "fst c1"] by (auto simp: itemOf_def newItem_def)
  from one two ids show ?thesis
    by simp
qed

theorem saveToHistory_ids_witness:
  "distinct (map id' (history (initialState\<lparr>history := [exampleItem]\<rparr>)))
   \<and> toString (fst (1700000000001 :: int, 1700000000001 :: int))
        \<notin> id' ` set (history (initialState\<lparr>history := [exampleItem]\<rparr>))
   \<and> map id' (history (fst (snd (saveToHistory examplePlatform exampleResult ''next'' None
        (1700000000001, 1700000000001) (initialState\<lparr>history := [exampleItem]\<rparr>, emptyWorld)))))
       = [''1700000000001'', ''1700000000000'']
   \<and> distinct (map id' (history (fst (snd (saveToHistory examplePlatform exampleResult ''next'' None
        (1700000000001, 1700000000001) (initialState\<lparr>history := [exampleItem]\<rparr>, emptyWorld))))))
   \<and> fst (1700000000000 :: int, 1700000000000 :: int) \<noteq> fst (1700000000001 :: int, 1700000000001 :: int)
   \<and> map id' (history (fst (appendAll examplePlatform
        [(exampleResult, ''first'', None, (1700000000000, 1700000000000)),
         (exampleResult, ''second'', None, (1700000000001, 1700000000001))]
        (initialState, emptyWorld)))) = [''1700000000001'', ''1700000000000'']"
proof -
  let ?s = "initialState\<lparr>history := [exampleItem]\<rparr>"
  have d: "distinct (map id' (history ?s))"
    by simp
  have fresh: "toString (fst (1700000000001 :: int, 1700000000001 :: int)) \<notin> id' ` set (history ?s)"
    by (simp add: toString_example_next exampleItem_def)
  have readings: "fst (1700000000000 :: int, 1700000000000 :: int)
      \<noteq> fst (1700000000001 :: int, 1700000000001 :: int)"
    by simp
  note fact = saveToHistory_ids [where pf = examplePlatform and s = ?s and w = emptyWorld
      and res = exampleResult and p = "''next''" and f = None
      and clock = "(1700000000001, 1700000000001)"
      and ?c1.0 = "(1700000000000, 1700000000000)" and ?c2.0 = "(1700000000001, 1700000000001)"]
  from fact d fresh
  have a: "distinct (map id' (history (fst (snd (saveToHistory examplePlatform exampleResult
        ''next'' None (1700000000001, 1700000000001) (?s, emptyWorld))))))"
    by blast
  have b: "map id' (history (fst (snd (saveToHistory examplePlatform exampleResult ''next'' None
        (1700000000001, 1700000000001) (?s, emptyWorld))))) = [''1700000000001'', ''1700000000000'']"
    by (simp add: saveToHistory_history newItem_def toString_example_next exampleItem_def)
  have c: "map id' (history (fst (appendAll examplePlatform
        [(exampleResult, ''first'', None, (1700000000000, 1700000000000)),
         (exampleResult, ''second'', None, (1700000000001, 1700000000001))]
        (initialState, emptyWorld)))) = [''1700000000001'', ''1700000000000'']"
    by (simp add: appendAll_history itemOf_def newItem_def toString_example
          toString_example_next initialState_def del: appendAll.simps)
  from d fresh a b readings c show ?thesis
    by simp
qed

text \<open>
  The claim as stated fails when two appends read the same millisecond: both items get
  the same id.
\<close>

theorem saveToHistory_ids_counterexample:
  "map id' (history (fst (appendAll examplePlatform
        [(exampleResult, ''first'', None, (1700000000000, 1700000000000)),
         (exampleResult, ''second'', None, (1700000000000, 1700000000000))]
        (initialState, emptyWorld)))) = [''1700000000000'', ''1700000000000'']
   \<and> \<not> distinct (map id' (history (fst (appendAll examplePlatform
        [(exampleResult, ''first'', None, (1700000000000, 1700000000000)),
         (exampleResult, ''second'', None, (1700000000000, 1700000000000))]
        (initialState, emptyWorld)))))"
  by (simp add: appendAll_history itemOf_def newItem_def toString_example initialState_def
        del: appendAll.simps)

end
